theory Spec2Isabelle
  imports Main "HOL-Library.Option_ord" "HOL-Library.Product_Lexorder" "HOL-Library.Multiset"
begin

section \<open>JavaScript strings and values\<close>

text \<open>
  A JavaScript string is a sequence of UTF-16 code units; a code unit is modelled as a
  natural number. \<open>str\<close> turns an ASCII literal into such a sequence; code units outside
  ASCII are written as numbers (\<open>224\<close> is U+00E0, \<open>8364\<close> is U+20AC).
\<close>

type_synonym jsstring = "nat list"

definition str :: "string \<Rightarrow> jsstring" where
  "str s = map of_char s"

text \<open>
  The white space of \<open>String.prototype.trim\<close> and of the regular expression class
  \<open>\s\<close>: the WhiteSpace and LineTerminator code points of ECMAScript.
\<close>

definition isSpace :: "nat \<Rightarrow> bool" where
  "isSpace c \<longleftrightarrow>
     c = 9 \<or> c = 10 \<or> c = 11 \<or> c = 12 \<or> c = 13 \<or> c = 32 \<or> c = 160 \<or> c = 5760 \<or>
     (8192 \<le> c \<and> c \<le> 8202) \<or> c = 8232 \<or> c = 8233 \<or> c = 8239 \<or> c = 8287 \<or>
     c = 12288 \<or> c = 65279"

definition trim :: "jsstring \<Rightarrow> jsstring" where
  "trim s = rev (dropWhile isSpace (rev (dropWhile isSpace s)))"

text \<open>
  \<open>String.prototype.toLowerCase\<close> is the lower-casing of the Unicode standard, with its
  mappings to several code units and its mappings that depend on the context. It is not
  defined here: every function that calls it takes it as a parameter (\<open>lc\<close>, or the field
  \<open>e_toLowerCase\<close> of the environment). \<open>lowerCasing\<close> states the two properties of it that
  proofs below use: lower-casing twice is lower-casing once, and the lower-casing of a
  trimmed string is trimmed.
\<close>

type_synonym lowercaser = "jsstring \<Rightarrow> jsstring"

definition lowerCasing :: "lowercaser \<Rightarrow> bool" where
  "lowerCasing lc \<longleftrightarrow>
     (\<forall>s. lc (lc s) = lc s) \<and> (\<forall>s. trim s = s \<longrightarrow> trim (lc s) = lc s)"

text \<open>
  The lower-casing used in the examples: it lowers the capital letters of Basic Latin and of
  the Latin-1 Supplement (U+0041..U+005A, U+00C0..U+00DE without U+00D7) and leaves every
  other code unit as it is. On a text whose letters all lie in these two blocks (digits,
  punctuation and signs such as the euro sign have no case), as in every example below, this
  is what \<open>toLowerCase\<close> returns.
\<close>

definition lowerLatin1Unit :: "nat \<Rightarrow> nat" where
  "lowerLatin1Unit c =
     (if 65 \<le> c \<and> c \<le> 90 then c + 32
      else if 192 \<le> c \<and> c \<le> 222 \<and> c \<noteq> 215 then c + 32
      else c)"

definition lowerLatin1 :: lowercaser where
  "lowerLatin1 s = map lowerLatin1Unit s"

text \<open>
  \<open>toUpperCase\<close> is called on a matched currency token only (ASCII letters or a currency
  sign), and the canonical form of a code unit under the flag \<open>i\<close> is its upper-case form;
  both are modelled on the small letters of Basic Latin and of the Latin-1 Supplement whose
  capital lies in the same block, every other code unit is left as it is.
\<close>

definition upperUnit :: "nat \<Rightarrow> nat" where
  "upperUnit c =
     (if 97 \<le> c \<and> c \<le> 122 then c - 32
      else if 224 \<le> c \<and> c \<le> 254 \<and> c \<noteq> 247 then c - 32
      else c)"

definition toUpperCase :: "jsstring \<Rightarrow> jsstring" where
  "toUpperCase s = map upperUnit s"

text \<open>
  Decimal rendering of an integer, as a template literal gives it for a number that is an
  integer below \<open>2^53\<close> in size.
\<close>

fun digitsOf :: "nat \<Rightarrow> jsstring" where
  "digitsOf n = (if n < 10 then [48 + n] else digitsOf (n div 10) @ [48 + n mod 10])"

declare digitsOf.simps [simp del]

definition showInt :: "int \<Rightarrow> jsstring" where
  "showInt i = (if i < 0 then 45 # digitsOf (nat (- i)) else digitsOf (nat i))"

text \<open>
  An element of a tag array is a string or any other value. The normaliser looks at a value
  in two ways only, \<open>!t\<close> and \<open>String(t)\<close>, so a value that is not a string is given by
  these two: \<open>JOther b s\<close> is a value that is truthy exactly when \<open>b\<close> holds and for which
  \<open>String\<close> returns \<open>s\<close> (\<open>null\<close> is \<open>JOther False (str ''null'')\<close>, the number 42 is
  \<open>JOther True (str ''42'')\<close>). \<open>truthy\<close> is the test of \<open>if (!t)\<close>, \<open>StringOf\<close> is
  \<open>String(t)\<close>. The arrays the program passes hold strings or come from \<open>JSON.parse\<close>, and
  on such values \<open>String\<close> does not raise.
\<close>

datatype jsval = JStr jsstring | JOther bool jsstring

fun truthy :: "jsval \<Rightarrow> bool" where
  "truthy (JStr s) = (s \<noteq> [])"
| "truthy (JOther b s) = b"

fun StringOf :: "jsval \<Rightarrow> jsstring" where
  "StringOf (JStr s) = s"
| "StringOf (JOther b s) = s"

section \<open>Tag normalisation\<close>

text \<open>
  \<open>uniqNormTags\<close>: the loop over the tags with its \<open>seen\<close> set and its \<open>out\<close> array,
  then \<open>out.slice(0, 8)\<close>.
\<close>

fun uniqNormTags_loop ::
  "lowercaser \<Rightarrow> jsval list \<Rightarrow> jsstring set \<Rightarrow> jsstring list \<Rightarrow> jsstring list" where
  "uniqNormTags_loop lc [] seen out = out"
| "uniqNormTags_loop lc (t # ts) seen out =
     (if \<not> truthy t then uniqNormTags_loop lc ts seen out
      else let t' = lc (trim (StringOf t)) in
        if t' = [] then uniqNormTags_loop lc ts seen out
        else if t' \<in> seen then uniqNormTags_loop lc ts seen out
        else uniqNormTags_loop lc ts (insert t' seen) (out @ [t']))"

definition uniqNormTags :: "lowercaser \<Rightarrow> jsval list \<Rightarrow> jsstring list" where
  "uniqNormTags lc tags = take 8 (uniqNormTags_loop lc tags {} [])"

text \<open>
  The normaliser as the specification words it: trim and lower-case every tag, drop the
  empty ones, remove duplicates keeping the first occurrence, keep the first eight.
\<close>

fun uniqFirst :: "'a list \<Rightarrow> 'a list" where
  "uniqFirst [] = []"
| "uniqFirst (x # xs) = x # uniqFirst (filter (\<lambda>y. y \<noteq> x) xs)"

definition normTag :: "lowercaser \<Rightarrow> jsval \<Rightarrow> jsstring" where
  "normTag lc t = lc (trim (StringOf t))"

definition normalize_spec :: "lowercaser \<Rightarrow> jsval list \<Rightarrow> jsstring list" where
  "normalize_spec lc tags =
     take 8 (uniqFirst (filter (\<lambda>s. s \<noteq> []) (map (normTag lc) (filter truthy tags))))"

definition survivors :: "lowercaser \<Rightarrow> jsval list \<Rightarrow> jsstring list" where
  "survivors lc tags = filter (\<lambda>s. s \<noteq> []) (map (normTag lc) (filter truthy tags))"

text \<open>
  A tag array used to exercise the normaliser; among its elements are \<open>null\<close>, the numbers 0
  and 42, \<open>true\<close> and a tag with a capital E acute (201; 233 is the small one).
\<close>

definition tags_example :: "jsval list" where
  "tags_example =
     [JStr (str '' Permis C ''), JStr (str ''permis c''), JStr [], JOther False (str ''null''),
      JOther False (str ''0''), JOther True (str ''42''), JOther True (str ''true''),
      JStr (str ''  ''), JStr (str ''ADR''), JStr ([201] @ str ''COLE''), JStr (str ''b''),
      JStr (str ''c''), JStr (str ''d''), JStr (str ''e''), JStr (str ''f'')]"

definition tags_example_out :: "jsstring list" where
  "tags_example_out =
     [str ''permis c'', str ''42'', str ''true'', str ''adr'', [233] @ str ''cole'', str ''b'',
      str ''c'', str ''d'']"

section \<open>Regular expressions\<close>

text \<open>
  The regular expressions of the source are matched by a backtracking matcher that
  follows the ECMAScript semantics: alternatives are tried from left to right, a greedy
  quantifier tries the longer match first, a lazy one the shorter, and \<open>re_exec\<close> returns the
  first match at the leftmost start position. \<open>ms\<close> returns every way a pattern can match
  at a position, in the order in which backtracking would try them; the first is the match.

  With the flag \<open>i\<close> two code units match when their canonical (upper-case) forms are equal;
  a code unit outside ASCII whose upper-case form is inside ASCII keeps itself, as the
  standard prescribes.
\<close>

datatype citem = Ch nat | Dig | Spc | NSpc | Wrd | Dot

definition isDigit :: "nat \<Rightarrow> bool" where
  "isDigit c \<longleftrightarrow> 48 \<le> c \<and> c \<le> 57"

definition isWordChar :: "nat \<Rightarrow> bool" where
  "isWordChar c \<longleftrightarrow> (97 \<le> c \<and> c \<le> 122) \<or> (65 \<le> c \<and> c \<le> 90) \<or> isDigit c \<or> c = 95"

definition isLineTerminator :: "nat \<Rightarrow> bool" where
  "isLineTerminator c \<longleftrightarrow> c = 10 \<or> c = 13 \<or> c = 8232 \<or> c = 8233"

definition canonicalize :: "bool \<Rightarrow> nat \<Rightarrow> nat" where
  "canonicalize ic c =
     (if \<not> ic then c
      else let u = upperUnit c in if 128 \<le> c \<and> u < 128 then c else u)"

fun citem_match :: "bool \<Rightarrow> citem \<Rightarrow> nat \<Rightarrow> bool" where
  "citem_match ic (Ch x) c = (canonicalize ic c = canonicalize ic x)"
| "citem_match ic Dig c = isDigit c"
| "citem_match ic Spc c = isSpace c"
| "citem_match ic NSpc c = (\<not> isSpace c)"
| "citem_match ic Wrd c = isWordChar c"
| "citem_match ic Dot c = (\<not> isLineTerminator c)"

datatype re =
    Eps
  | Chars "citem list"
  | NChars "citem list"
  | Seq re re
  | Alt re re
  | Star bool re
  | Grp nat re
  | WordB
  | NotAhead re
  | Eol

text \<open>
  A matcher state: the input already consumed (nearest code unit first), the input still
  to read, and the capture groups set so far.
\<close>

record mstate =
  consumed :: "nat list"
  remaining :: "nat list"
  captures :: "(nat \<times> jsstring) list"

definition step1 :: "mstate \<Rightarrow> mstate" where
  "step1 st = st\<lparr>consumed := hd (remaining st) # consumed st, remaining := tl (remaining st)\<rparr>"

definition atWordBoundary :: "mstate \<Rightarrow> bool" where
  "atWordBoundary st \<longleftrightarrow>
     (case consumed st of [] \<Rightarrow> False | a # _ \<Rightarrow> isWordChar a) \<noteq>
     (case remaining st of [] \<Rightarrow> False | b # _ \<Rightarrow> isWordChar b)"

definition capture :: "nat \<Rightarrow> mstate \<Rightarrow> mstate \<Rightarrow> mstate" where
  "capture i st st' =
     st'\<lparr>captures := (i, take (length (remaining st) - length (remaining st')) (remaining st)) # captures st'\<rparr>"

function ms :: "bool \<Rightarrow> re \<Rightarrow> mstate \<Rightarrow> mstate list" where
  "ms ic Eps st = [st]"
| "ms ic (Chars cs) st =
     (case remaining st of [] \<Rightarrow> []
      | c # _ \<Rightarrow> if list_ex (\<lambda>i. citem_match ic i c) cs then [step1 st] else [])"
| "ms ic (NChars cs) st =
     (case remaining st of [] \<Rightarrow> []
      | c # _ \<Rightarrow> if list_ex (\<lambda>i. citem_match ic i c) cs then [] else [step1 st])"
| "ms ic (Seq a b) st = concat (map (ms ic b) (ms ic a st))"
| "ms ic (Alt a b) st = ms ic a st @ ms ic b st"
| "ms ic (Star greedy a) st =
     (let more = concat (map (\<lambda>st'. if length (remaining st') < length (remaining st)
                                       then ms ic (Star greedy a) st' else [])
                             (ms ic a st))
      in if greedy then more @ [st] else st # more)"
| "ms ic (Grp i a) st = map (capture i st) (ms ic a st)"
| "ms ic WordB st = (if atWordBoundary st then [st] else [])"
| "ms ic (NotAhead a) st = (if ms ic a st = [] then [st] else [])"
| "ms ic Eol st = (if remaining st = [] then [st] else [])"
  by pat_completeness auto
termination
  by (relation "inv_image (measure size <*lex*> measure length) (\<lambda>(ic, r, st). (r, remaining st))")
    auto

text \<open>The quantifiers \<open>?\<close>, \<open>+\<close>, \<open>{n}\<close> and \<open>{lo,hi}\<close> (all greedy), and literals.\<close>

definition re_opt :: "re \<Rightarrow> re" where
  "re_opt r = Alt r Eps"

definition re_plus :: "re \<Rightarrow> re" where
  "re_plus r = Seq r (Star True r)"

fun re_times :: "nat \<Rightarrow> re \<Rightarrow> re" where
  "re_times 0 r = Eps"
| "re_times (Suc n) r = Seq r (re_times n r)"

fun re_upto :: "nat \<Rightarrow> re \<Rightarrow> re" where
  "re_upto 0 r = Eps"
| "re_upto (Suc n) r = re_opt (Seq r (re_upto n r))"

definition re_rep :: "nat \<Rightarrow> nat \<Rightarrow> re \<Rightarrow> re" where
  "re_rep lo hi r = Seq (re_times lo r) (re_upto (hi - lo) r)"

fun re_lit :: "jsstring \<Rightarrow> re" where
  "re_lit [] = Eps"
| "re_lit (c # cs) = Seq (Chars [Ch c]) (re_lit cs)"

fun re_seqs :: "re list \<Rightarrow> re" where
  "re_seqs [] = Eps"
| "re_seqs [r] = r"
| "re_seqs (r # rs) = Seq r (re_seqs rs)"

fun re_alts :: "re list \<Rightarrow> re" where
  "re_alts [] = NChars [Spc, NSpc]"
| "re_alts [r] = r"
| "re_alts (r # rs) = Alt r (re_alts rs)"

text \<open>
  \<open>re_exec\<close>: the first start position at which the pattern matches, with the matched text,
  the groups, the text skipped before the match, the text after it and the input read up to
  its end (nearest code unit first). \<open>re_test\<close> is \<open>RegExp.prototype.test\<close>, \<open>re_group m i\<close> is \<open>m[i]\<close>.
\<close>

record rmatch =
  m_text :: jsstring
  m_groups :: "(nat \<times> jsstring) list"
  m_skipped :: jsstring
  m_after :: jsstring
  m_context :: "nat list"

fun re_exec_from :: "bool \<Rightarrow> re \<Rightarrow> nat list \<Rightarrow> nat list \<Rightarrow> jsstring \<Rightarrow> rmatch option" where
  "re_exec_from ic r bef skipped s =
     (case ms ic r \<lparr>consumed = bef, remaining = s, captures = []\<rparr> of
        m # _ \<Rightarrow> Some \<lparr>m_text = take (length s - length (remaining m)) s, m_groups = captures m,
                        m_skipped = rev skipped, m_after = remaining m, m_context = consumed m\<rparr>
      | [] \<Rightarrow> (case s of [] \<Rightarrow> None
                | c # cs \<Rightarrow> re_exec_from ic r (c # bef) (c # skipped) cs))"

declare re_exec_from.simps [simp del]

definition re_exec :: "bool \<Rightarrow> re \<Rightarrow> jsstring \<Rightarrow> rmatch option" where
  "re_exec ic r s = re_exec_from ic r [] [] s"

definition re_test :: "bool \<Rightarrow> re \<Rightarrow> jsstring \<Rightarrow> bool" where
  "re_test ic r s \<longleftrightarrow> re_exec ic r s \<noteq> None"

definition re_group :: "rmatch \<Rightarrow> nat \<Rightarrow> jsstring option" where
  "re_group m i = map_of (m_groups m) i"

text \<open>
  \<open>s.replace(r, repl)\<close> with the flag \<open>g\<close> and a replacement without \<open>$\<close> patterns, and
  \<open>s.split(r)\<close> for a pattern that does not match the empty string. After an empty match
  the search moves on by one code unit. The tests on the lengths always hold (a match ends
  inside the text); they make the recursion well-founded.
\<close>

function replaceAll_from :: "bool \<Rightarrow> re \<Rightarrow> jsstring \<Rightarrow> nat list \<Rightarrow> jsstring \<Rightarrow> jsstring" where
  "replaceAll_from ic r repl bef s =
     (case re_exec_from ic r bef [] s of
        None \<Rightarrow> s
      | Some m \<Rightarrow>
          (if m_text m = [] then
             (case m_after m of
                [] \<Rightarrow> m_skipped m @ repl
              | c # cs \<Rightarrow>
                  m_skipped m @ repl @
                  c # (if length cs < length s
                       then replaceAll_from ic r repl (c # m_context m) cs else cs))
           else
             m_skipped m @ repl @
             (if length (m_after m) < length s
              then replaceAll_from ic r repl (m_context m) (m_after m) else m_after m)))"
  by pat_completeness auto
termination
  by (relation "measure (\<lambda>(ic, r, repl, bef, s). length s)") auto

declare replaceAll_from.simps [simp del]

definition replaceAll :: "bool \<Rightarrow> re \<Rightarrow> jsstring \<Rightarrow> jsstring \<Rightarrow> jsstring" where
  "replaceAll ic r repl s = replaceAll_from ic r repl [] s"

function split_from :: "bool \<Rightarrow> re \<Rightarrow> nat list \<Rightarrow> jsstring \<Rightarrow> jsstring list" where
  "split_from ic r bef s =
     (case re_exec_from ic r bef [] s of
        None \<Rightarrow> [s]
      | Some m \<Rightarrow>
          (if m_text m \<noteq> [] \<and> length (m_after m) < length s
           then m_skipped m # split_from ic r (m_context m) (m_after m)
           else [s]))"
  by pat_completeness auto
termination
  by (relation "measure (\<lambda>(ic, r, bef, s). length s)") auto

declare split_from.simps [simp del]

definition split_re :: "bool \<Rightarrow> re \<Rightarrow> jsstring \<Rightarrow> jsstring list" where
  "split_re ic r s = split_from ic r [] s"

text \<open>\<open>text.includes(t)\<close> and \<open>xs.join(sep)\<close>.\<close>

fun startsWith :: "jsstring \<Rightarrow> jsstring \<Rightarrow> bool" where
  "startsWith s [] = True"
| "startsWith [] (t # ts) = False"
| "startsWith (c # cs) (t # ts) = (c = t \<and> startsWith cs ts)"

fun str_includes :: "jsstring \<Rightarrow> jsstring \<Rightarrow> bool" where
  "str_includes [] t = (t = [])"
| "str_includes (c # cs) t = (startsWith (c # cs) t \<or> str_includes cs t)"

fun join :: "jsstring \<Rightarrow> jsstring list \<Rightarrow> jsstring" where
  "join sep [] = []"
| "join sep [x] = x"
| "join sep (x # xs) = x @ sep @ join sep xs"

section \<open>The semantic extractor: salary\<close>

text \<open>
  \<open>convert\<close> is the \<open>html-to-text\<close> library; it is a parameter of every function that
  calls it, together with the options it is called with.
\<close>

datatype convert_opts = Wordwrap nat | WordwrapIgnoreHref nat

type_synonym converter = "convert_opts \<Rightarrow> jsstring \<Rightarrow> jsstring"

datatype salary_unit = YEAR | MONTH | WEEK | DAY | HOUR

record salary =
  currency :: jsstring
  smin :: "nat option"
  smax :: "nat option"
  unit :: salary_unit

text \<open>
  The unit patterns, \<open>/\b(an|annee|annuel|par an|year|annually|per year)\b/i\<close> and so on; the
  second alternative of the first is written with an e acute, the code unit 233.
\<close>

definition re_year :: re where
  "re_year = re_seqs [WordB, Grp 1 (re_alts [re_lit (str ''an''), re_lit (str ''ann'' @ [233] @ str ''e''),
     re_lit (str ''annuel''), re_lit (str ''par an''), re_lit (str ''year''), re_lit (str ''annually''),
     re_lit (str ''per year'')]), WordB]"

definition re_month :: re where
  "re_month = re_seqs [WordB, Grp 1 (re_alts [re_lit (str ''mois''), re_lit (str ''mensuel''),
     re_lit (str ''par mois''), re_lit (str ''month''), re_lit (str ''monthly''),
     re_lit (str ''per month'')]), WordB]"

definition re_week :: re where
  "re_week = re_seqs [WordB, Grp 1 (re_alts [re_lit (str ''semaine''), re_lit (str ''hebdo''),
     re_lit (str ''par semaine''), re_lit (str ''week''), re_lit (str ''weekly''),
     re_lit (str ''per week'')]), WordB]"

definition re_day :: re where
  "re_day = re_seqs [WordB, Grp 1 (re_alts [re_lit (str ''jour''), re_lit (str ''journalier''),
     re_lit (str ''par jour''), re_lit (str ''day''), re_lit (str ''daily''),
     re_lit (str ''per day'')]), WordB]"

definition re_hour :: re where
  "re_hour = re_seqs [WordB, Grp 1 (re_alts [re_lit (str ''heure''), re_lit (str ''horaire''),
     re_lit (str ''par heure''), re_lit (str ''hour''), re_lit (str ''hourly''),
     re_lit (str ''per hour'')]), WordB]"

definition salaryUnit :: "jsstring \<Rightarrow> salary_unit" where
  "salaryUnit text =
     (if re_test True re_year text then YEAR
      else if re_test True re_month text then MONTH
      else if re_test True re_week text then WEEK
      else if re_test True re_day text then DAY
      else if re_test True re_hour text then HOUR
      else HOUR)"

text \<open>
  The currency pattern: \<open>\b(eur|euro|usd|chf|gbp)\b\<close> or one of the euro, dollar and pound
  signs (8364, 36 and 163), with the flag \<open>i\<close>.
\<close>

definition re_currency :: re where
  "re_currency =
     Alt (re_seqs [WordB, Grp 1 (re_alts [re_lit (str ''eur''), re_lit (str ''euro''), re_lit (str ''usd''),
                 re_lit (str ''chf''), re_lit (str ''gbp'')]), WordB])
         (Chars [Ch 8364, Ch 36, Ch 163])"

definition currencyOf :: "jsstring \<Rightarrow> jsstring option" where
  "currencyOf text =
     (case re_exec True re_currency text of
        None \<Rightarrow> None
      | Some cMatch \<Rightarrow>
          (let c = toUpperCase (m_text cMatch) in
           if c = [8364] \<or> c = str ''EUR'' \<or> c = str ''EURO'' then Some (str ''EUR'')
           else if c = [36] \<or> c = str ''USD'' then Some (str ''USD'')
           else if c = [163] \<or> c = str ''GBP'' then Some (str ''GBP'')
           else if c = str ''CHF'' then Some (str ''CHF'')
           else None))"

text \<open>
  An amount is \<open>\d{1,2}[.,]?\d{3,6}\<close>. The range pattern is two amounts in groups, separated
  by optional white space around one of the hyphen, the en dash, the em dash and the letter a
  grave (45, 8211, 8212 and 224). The single-bound pattern is
  \<open>/(?:a partir de|des|from|de|von)\s*(amount)|(amount)\s*(?:\+|jusqu'?a|bis)/i\<close>, where the
  first \<open>a\<close> of \<open>a partir de\<close> and the \<open>a\<close> after \<open>jusqu\<close> are a grave (224) and the \<open>e\<close> of
  \<open>des\<close> is e grave (232).
\<close>

definition re_amount :: re where
  "re_amount = re_seqs [re_rep 1 2 (Chars [Dig]), re_opt (Chars [Ch 46, Ch 44]), re_rep 3 6 (Chars [Dig])]"

definition re_range :: re where
  "re_range = re_seqs [Grp 1 re_amount, Star True (Chars [Spc]), Chars [Ch 45, Ch 8211, Ch 8212, Ch 224],
     Star True (Chars [Spc]), Grp 2 re_amount]"

definition re_one :: re where
  "re_one =
     Alt (re_seqs [re_alts [re_lit ([224] @ str '' partir de''), re_lit (str ''d'' @ [232] @ str ''s''),
                      re_lit (str ''from''), re_lit (str ''de''), re_lit (str ''von'')],
                Star True (Chars [Spc]), Grp 1 re_amount])
         (re_seqs [Grp 2 re_amount, Star True (Chars [Spc]),
                re_alts [re_lit (str ''+''), re_seqs [re_lit (str ''jusqu''), re_opt (Chars [Ch 39]), re_lit [224]],
                      re_lit (str ''bis'')]])"

text \<open>\<open>Number(s.replace(/[.,]/g, ''))\<close> on a string of digits, dots and commas.\<close>

definition numberOfAmount :: "jsstring \<Rightarrow> nat" where
  "numberOfAmount s = foldl (\<lambda>a d. 10 * a + (d - 48)) 0 (filter (\<lambda>c. c \<noteq> 46 \<and> c \<noteq> 44) s)"

text \<open>\<open>a || b\<close> on capture groups: an unset or empty group is falsy.\<close>

definition orGroup :: "jsstring option \<Rightarrow> jsstring option \<Rightarrow> jsstring option" where
  "orGroup a b = (case a of Some (c # cs) \<Rightarrow> a | _ \<Rightarrow> b)"

definition orEmpty :: "jsstring option \<Rightarrow> jsstring" where
  "orEmpty v = (case v of None \<Rightarrow> [] | Some s \<Rightarrow> s)"

definition salaryBounds :: "jsstring \<Rightarrow> nat option \<times> nat option" where
  "salaryBounds text =
     (case re_exec True re_range text of
        Some rng \<Rightarrow>
          (Some (numberOfAmount (orEmpty (re_group rng 1))),
           Some (numberOfAmount (orEmpty (re_group rng 2))))
      | None \<Rightarrow>
          (case re_exec True re_one text of
             Some one \<Rightarrow>
               (let val = orGroup (re_group one 1) (re_group one 2)
                in (Some (numberOfAmount (orEmpty val)), None))
           | None \<Rightarrow> (None, None)))"

text \<open>Truthiness of \<open>min\<close> and \<open>max\<close>, each \<open>null\<close> or a number.\<close>

definition truthyNum :: "nat option \<Rightarrow> bool" where
  "truthyNum v = (case v of None \<Rightarrow> False | Some n \<Rightarrow> n \<noteq> 0)"

text \<open>
  The salary field of \<open>parseMeta(textHTML, title)\<close>. The other fields of the result
  (employment type, remote flag, experience) do not enter the salary and are left out.
\<close>

definition parseMeta_text :: "lowercaser \<Rightarrow> converter \<Rightarrow> jsstring \<Rightarrow> jsstring \<Rightarrow> jsstring" where
  "parseMeta_text lc convert textHTML title =
     lc (convert (Wordwrap 1000) textHTML @ str '' '' @ title)"

definition parseMeta_salary ::
  "lowercaser \<Rightarrow> converter \<Rightarrow> jsstring \<Rightarrow> jsstring \<Rightarrow> salary option" where
  "parseMeta_salary lc convert textHTML title =
     (let text = parseMeta_text lc convert textHTML title;
          u = salaryUnit text;
          cur = currencyOf text;
          (mn, mx) = salaryBounds text
      in case cur of
           None \<Rightarrow> None
         | Some c \<Rightarrow>
             if truthyNum mn \<or> truthyNum mx
             then Some \<lparr>currency = c, smin = mn, smax = mx, unit = u\<rparr>
             else None)"

text \<open>
  The text of the scenario, \<open>Salaire de 28000 a 35000 EUR par an\<close> with the letter a grave (224)
  between the numbers and the euro sign (8364) after them.
\<close>

definition salaire_example :: jsstring where
  "salaire_example = str ''Salaire de 28000 '' @ [224] @ str '' 35000 '' @ [8364] @ str '' par an''"

text \<open>
  The same text as \<open>parseMeta\<close> sees it, followed by a space and the empty title and
  lower-cased: \<open>toLowerCase\<close> lowers the capital S and leaves the rest as it is.
\<close>

definition salaire_text :: jsstring where
  "salaire_text = str ''salaire de 28000 '' @ [224] @ str '' 35000 '' @ [8364] @ str '' par an ''"

section \<open>The store\<close>

text \<open>
  The tables \<open>jobs\<close>, \<open>tags\<close>, \<open>job_tags\<close> and \<open>stats_cache\<close>. A table is the list of its
  rows in insertion order. \<open>published_at\<close> is a nullable INTEGER column: \<open>None\<close> is NULL (what
  the binding of \<open>NaN\<close> stores). The column \<open>created_at\<close> is never read and is left out.
  \<open>jobs_seq\<close> and \<open>tags_seq\<close> are the AUTOINCREMENT counters: the largest id handed out.
\<close>

record job =
  job_id :: int
  job_guid :: jsstring
  job_source :: jsstring
  job_title :: jsstring
  job_company :: jsstring
  description_html :: jsstring
  description_short :: jsstring
  job_url :: jsstring
  published_at :: "int option"
  job_slug :: jsstring
  tags_csv :: jsstring

record tag =
  tag_id :: int
  tag_name :: jsstring
  tag_slug :: jsstring

record cache_row =
  cache_value :: int
  updated_at :: int

record db =
  jobs :: "job list"
  jobs_seq :: int
  tags_table :: "tag list"
  tags_seq :: int
  job_tags :: "(int \<times> int) list"
  stats_cache :: "jsstring \<rightharpoonup> cache_row"

text \<open>
  \<open>ORDER BY published_at DESC, id DESC\<close>: rows by descending \<open>(published_at, id)\<close>, NULL
  below every number, as SQLite orders it.
\<close>

definition job_key :: "job \<Rightarrow> int option \<times> int" where
  "job_key j = (published_at j, job_id j)"

definition order_desc :: "job list \<Rightarrow> job list" where
  "order_desc js = rev (sort_key job_key js)"

text \<open>\<open>stmtHasGuid\<close>: \<open>SELECT id FROM jobs WHERE guid=? LIMIT 1\<close>.\<close>

definition stmtHasGuid :: "db \<Rightarrow> jsstring \<Rightarrow> int option" where
  "stmtHasGuid d g = (case filter (\<lambda>j. job_guid j = g) (jobs d) of [] \<Rightarrow> None | j # _ \<Rightarrow> Some (job_id j))"

text \<open>
  \<open>stmtPageFirst\<close> and \<open>stmtPageCursor\<close>. The condition
  \<open>published_at < ? OR (published_at = ? AND id < ?)\<close> is not true on a row whose
  \<open>published_at\<close> is NULL.
\<close>

definition stmtPageFirst :: "db \<Rightarrow> nat \<Rightarrow> job list" where
  "stmtPageFirst d lim = take lim (order_desc (jobs d))"

definition beforeCursor :: "int \<Rightarrow> int \<Rightarrow> int \<Rightarrow> job \<Rightarrow> bool" where
  "beforeCursor p1 p2 i j =
     (case published_at j of
        None \<Rightarrow> False
      | Some p \<Rightarrow> p < p1 \<or> (p = p2 \<and> job_id j < i))"

definition stmtPageCursor :: "db \<Rightarrow> int \<Rightarrow> int \<Rightarrow> int \<Rightarrow> nat \<Rightarrow> job list" where
  "stmtPageCursor d p1 p2 i lim = take lim (order_desc (filter (beforeCursor p1 p2 i) (jobs d)))"

text \<open>
  \<open>stmtGetCache\<close>, \<open>stmtSetCache\<close> and \<open>getCachedCount(ttlSeconds)\<close>. \<open>now\<close> is the clock in
  seconds, read by \<open>Date.now()\<close> and by \<open>strftime('%s','now')\<close>.
\<close>

definition total_jobs :: jsstring where
  "total_jobs = str ''total_jobs''"

definition stmtGetCache :: "db \<Rightarrow> jsstring \<Rightarrow> int \<Rightarrow> int option" where
  "stmtGetCache d k cutoff =
     (case stats_cache d k of
        None \<Rightarrow> None
      | Some r \<Rightarrow> if updated_at r > cutoff then Some (cache_value r) else None)"

definition stmtSetCache :: "int \<Rightarrow> db \<Rightarrow> jsstring \<Rightarrow> int \<Rightarrow> db" where
  "stmtSetCache now d k v = d\<lparr>stats_cache := (stats_cache d)(k \<mapsto> \<lparr>cache_value = v, updated_at = now\<rparr>)\<rparr>"

definition getCachedCount :: "int \<Rightarrow> db \<Rightarrow> int \<Rightarrow> int \<times> db" where
  "getCachedCount now d ttlSeconds =
     (let cutoff = now - ttlSeconds in
      case stmtGetCache d total_jobs cutoff of
        Some v \<Rightarrow> (v, d)
      | None \<Rightarrow>
          (let count = int (length (jobs d))
           in (count, stmtSetCache now d total_jobs count)))"

text \<open>
  \<open>stmtDeleteOld\<close>: delete the rows whose id is among those of the rows after the first
  \<open>OFFSET\<close> rows of the ordering.
\<close>

definition stmtDeleteOld :: "db \<Rightarrow> nat \<Rightarrow> db" where
  "stmtDeleteOld d off =
     (let ids = map job_id (drop off (order_desc (jobs d)))
      in d\<lparr>jobs := filter (\<lambda>j. job_id j \<notin> set ids) (jobs d)\<rparr>)"

text \<open>
  The end of \<open>processFeed\<close>: the count is refreshed, and when it exceeds \<open>MAX_JOBS\<close> the
  oldest rows are deleted and the cache is set to \<open>MAX_JOBS\<close>.
\<close>

definition retention :: "nat \<Rightarrow> int \<Rightarrow> db \<Rightarrow> db" where
  "retention MAX_JOBS now d =
     (let (total, d1) = getCachedCount now d 0 in
      if total > int MAX_JOBS
      then stmtSetCache now (stmtDeleteOld d1 MAX_JOBS) total_jobs (int MAX_JOBS)
      else d1)"

section \<open>Keyset pagination of the home page\<close>

text \<open>
  The numbers of the route are doubles: a value of an INTEGER column is read as the nearest
  double, and \<open>Number\<close> and the template literal convert between doubles and text. The
  model computes with integers below \<open>2^53\<close> in size, which a double holds exactly and the
  template literal prints in plain decimal digits; where a larger number would come in, the
  model gives no answer (\<open>None\<close>).
\<close>

definition safeInteger :: "int \<Rightarrow> bool" where
  "safeInteger n \<longleftrightarrow> - (2 ^ 53) < n \<and> n < 2 ^ 53"

datatype jsnum = NaN | Num int

text \<open>
  \<open>Number\<close> on a part of a cursor: the empty string is 0, a string of decimal digits is its
  value, \<open>null\<close> (the text of a NULL publication time) is \<open>NaN\<close>. These are the parts of the
  cursors the route builds from numbers below \<open>2^53\<close>. On every other string (a fraction, an
  exponent, hexadecimal digits, white space, the digits of a number from \<open>2^53\<close> on, any other
  text) the model gives no answer.
\<close>

definition numberOfDigits :: "jsstring \<Rightarrow> int" where
  "numberOfDigits s = foldl (\<lambda>a d. 10 * a + (int d - 48)) 0 s"

definition NumberOf :: "jsstring \<Rightarrow> jsnum option" where
  "NumberOf s =
     (if list_all isDigit s
      then (if numberOfDigits s < 2 ^ 53 then Some (Num (numberOfDigits s)) else None)
      else if s = str ''null'' then Some NaN
      else None)"

text \<open>\<open>!n\<close> for a number: true for 0 and for \<open>NaN\<close>.\<close>

definition falsyNumber :: "jsnum \<Rightarrow> bool" where
  "falsyNumber n = (case n of NaN \<Rightarrow> True | Num v \<Rightarrow> v = 0)"

text \<open>\<open>s.split(sep)\<close> with a one-unit separator.\<close>

fun split_on :: "nat \<Rightarrow> jsstring \<Rightarrow> jsstring list" where
  "split_on sep [] = [[]]"
| "split_on sep (c # cs) =
     (if c = sep then [] # split_on sep cs
      else (case split_on sep cs of [] \<Rightarrow> [[c]] | p # ps \<Rightarrow> (c # p) # ps))"

text \<open>
  \<open>`${r.published_at}-${r.id}`\<close> for the last row of a page: \<open>null\<close> for a NULL publication
  time, decimal digits (after a minus sign, if negative) for an integer below \<open>2^53\<close> in size.
\<close>

definition showNumber :: "int \<Rightarrow> jsstring option" where
  "showNumber n = (if safeInteger n then Some (showInt n) else None)"

definition cursorOf :: "job \<Rightarrow> jsstring option" where
  "cursorOf r =
     (case ((case published_at r of None \<Rightarrow> Some (str ''null'') | Some p \<Rightarrow> showNumber p),
            showNumber (job_id r)) of
        (Some a, Some b) \<Rightarrow> Some (a @ [45] @ b)
      | _ \<Rightarrow> None)"

text \<open>
  The route \<open>GET /\<close> as far as the rows and the next cursor go (the HTML around them is left
  out): the rows of the page and \<open>nextCursor\<close>, or the status 400 of an invalid cursor. A
  cursor without a second part leaves \<open>id\<close> undefined, which \<open>!id\<close> rejects. \<open>pageOf\<close> is the
  end of the route, common to its two branches: \<open>hasMore\<close> and \<open>nextCursor\<close> from the rows
  read.
\<close>

definition pageSize :: nat where
  "pageSize = 50"

record page =
  rows :: "job list"
  nextCursor :: "jsstring option"

datatype http_error = Status400

definition pageOf :: "job list \<Rightarrow> (http_error + page) option" where
  "pageOf rs =
     (if length rs = pageSize
      then (case cursorOf (last rs) of
              None \<Rightarrow> None
            | Some c \<Rightarrow> Some (Inr \<lparr>rows = rs, nextCursor = Some c\<rparr>))
      else Some (Inr \<lparr>rows = rs, nextCursor = None\<rparr>))"

definition home :: "db \<Rightarrow> jsstring \<Rightarrow> (http_error + page) option" where
  "home d cursor =
     (if cursor = [] then pageOf (stmtPageFirst d pageSize)
      else
        (case split_on 45 cursor of
           p # q # _ \<Rightarrow>
             (case (NumberOf p, NumberOf q) of
                (Some pub, Some i) \<Rightarrow>
                  (if falsyNumber pub \<or> falsyNumber i then Some (Inl Status400)
                   else (case (pub, i) of
                           (Num a, Num b) \<Rightarrow> pageOf (stmtPageCursor d a a b pageSize)
                         | _ \<Rightarrow> Some (Inl Status400)))
              | _ \<Rightarrow> None)
         | _ \<Rightarrow> Some (Inl Status400)))"

text \<open>
  A full scan: the first page with no cursor, then the page of every \<open>nextCursor\<close>, until a
  page has none. The fuel bounds the number of requests; \<open>OutOfFuel\<close> is a scan that did not
  end within it, \<open>Failed\<close> one that a request ended with an error status, \<open>NotModelled\<close> one
  that met a number the model does not compute.
\<close>

datatype scan = OutOfFuel | NotModelled | Failed http_error | Rows "job list"

fun fullScan :: "nat \<Rightarrow> db \<Rightarrow> jsstring \<Rightarrow> scan" where
  "fullScan 0 d cursor = OutOfFuel"
| "fullScan (Suc n) d cursor =
     (case home d cursor of
        None \<Rightarrow> NotModelled
      | Some (Inl e) \<Rightarrow> Failed e
      | Some (Inr pg) \<Rightarrow>
          (case nextCursor pg of
             None \<Rightarrow> Rows (rows pg)
           | Some c \<Rightarrow>
               (case fullScan n d c of
                  Rows later \<Rightarrow> Rows (rows pg @ later)
                | OutOfFuel \<Rightarrow> OutOfFuel
                | NotModelled \<Rightarrow> NotModelled
                | Failed e \<Rightarrow> Failed e)))"

text \<open>
  Stores used as examples: three postings published at the times 3, 2 and 1, fifty-one
  postings all published at the time 0, and fifty-one postings published one second after
  another.
\<close>

definition mkJob :: "int \<Rightarrow> int option \<Rightarrow> job" where
  "mkJob i p =
     \<lparr>job_id = i, job_guid = str ''g'' @ showInt i, job_source = [], job_title = [],
      job_company = [], description_html = [], description_short = [], job_url = [],
      published_at = p, job_slug = str ''s'' @ showInt i, tags_csv = []\<rparr>"


definition db51 :: db where
  "db51 =
     \<lparr>jobs = map (\<lambda>i. mkJob (int i) (Some 0)) [1..<52], jobs_seq = 51,
      tags_table = [], tags_seq = 0, job_tags = [], stats_cache = Map.empty\<rparr>"

definition db51s :: db where
  "db51s =
     \<lparr>jobs = map (\<lambda>i. mkJob (int i) (Some (1700000000 + int i))) [1..<52], jobs_seq = 51,
      tags_table = [], tags_seq = 0, job_tags = [], stats_cache = Map.empty\<rparr>"

text \<open>
  Rows as the pagination needs them: the id and the publication time are positive integers
  below \<open>2^53\<close>.
\<close>

definition positive_rows :: "job list \<Rightarrow> bool" where
  "positive_rows js \<longleftrightarrow>
     list_all (\<lambda>j. 0 < job_id j \<and> job_id j < 2 ^ 53 \<and>
                   (case published_at j of None \<Rightarrow> False | Some p \<Rightarrow> 0 < p \<and> p < 2 ^ 53)) js"

section \<open>Configuration and external services\<close>

text \<open>
  The environment variables the pipeline reads, already parsed: \<open>PROFESSION_KEYWORDS\<close> is the
  lower-cased, split and trimmed list; \<open>MAX_JOBS\<close> and \<open>AI_PROCESS_LIMIT\<close> are counts.
\<close>

record config =
  FEED_URL :: jsstring
  MAX_JOBS :: nat
  HAS_OPENAI :: bool
  TARGET_PROFESSION :: jsstring
  AI_PROCESS_LIMIT :: nat
  PROFESSION_KEYWORDS :: "jsstring list"

text \<open>
  What the program gets from outside: the libraries \<open>html-to-text\<close> (\<open>convert\<close>) and
  \<open>slugify\<close> (called with \<open>lower\<close> and \<open>strict\<close>), the built-ins
  \<open>String.prototype.toLowerCase\<close>, \<open>new URL(u).hostname\<close>,
  \<open>JSON.parse\<close> (\<open>None\<close> when it throws) and \<open>Math.floor(new Date(d).getTime() / 1000)\<close>
  (\<open>None\<close> for \<open>NaN\<close>), the clock, the chat completion of the AI backend as a function of the
  user message (the system message is fixed by the configuration), and the feed: what
  \<open>fetch\<close> gives and the events the SAX parser emits while the body is piped into it.
\<close>

datatype ai_reply = Raises jsstring | Content jsstring

datatype event =
    OpenTag jsstring
  | TextEv jsstring
  | CData jsstring
  | CloseTag jsstring
  | ParserError jsstring
  | StreamError jsstring
  | EndEv

datatype fetch_result = FetchError jsstring | Stream "event list"

record env =
  e_toLowerCase :: lowercaser
  e_convert :: converter
  e_slugify :: "jsstring \<Rightarrow> jsstring"
  e_hostname :: "jsstring \<Rightarrow> jsstring"
  e_JSON_parse :: "jsstring \<Rightarrow> jsval list option"
  e_unixtime :: "jsstring \<Rightarrow> int option"
  e_now :: int
  e_nowISO :: jsstring
  e_openai :: "jsstring \<Rightarrow> ai_reply"
  e_fetch :: "jsstring \<Rightarrow> fetch_result"

section \<open>Text helpers\<close>

definition mkSlug :: "env \<Rightarrow> jsstring \<Rightarrow> jsstring" where
  "mkSlug E s = take 120 (e_slugify E (if s = [] then str ''emploi'' else s))"

definition tagSlug :: "env \<Rightarrow> jsstring \<Rightarrow> jsstring" where
  "tagSlug E t = mkSlug E t"

text \<open>\<open>truncateWords(txt, n)\<close>; 8230 is the ellipsis.\<close>

definition truncateWords :: "jsstring \<Rightarrow> nat \<Rightarrow> jsstring" where
  "truncateWords txt n =
     (let ws = split_re False (re_plus (Chars [Spc])) txt in
      if length ws \<le> n then txt else join (str '' '') (take n ws) @ [8230])"

text \<open>\<open>escapeHtml\<close>: the five characters \<open>&\<close>, \<open><\<close>, \<open>>\<close>, the double and the single quote.\<close>

definition escapeUnit :: "nat \<Rightarrow> jsstring" where
  "escapeUnit c =
     (if c = 38 then str ''&amp;''
      else if c = 60 then str ''&lt;''
      else if c = 62 then str ''&gt;''
      else if c = 34 then str ''&quot;''
      else if c = 39 then str ''&#39;''
      else [c])"

definition escapeHtml :: "jsstring \<Rightarrow> jsstring" where
  "escapeHtml s = concat (map escapeUnit s)"

text \<open>
  \<open>sanitizeHtml\<close>: six replacements by the empty string, all with the flags \<open>gi\<close>.
  60, 62, 34 and 39 are \<open><\<close>, \<open>>\<close>, the double and the single quote.
\<close>

definition re_script :: re where
  "re_script =
     re_seqs [re_lit (str ''<script''), WordB, Star True (NChars [Ch 60]),
              Star True (re_seqs [NotAhead (re_lit (str ''</script>'')), Chars [Ch 60],
                                  Star True (NChars [Ch 60])]),
              re_lit (str ''</script>'')]"

definition re_embedded :: re where
  "re_embedded =
     re_seqs [re_lit (str ''<''), re_opt (re_lit (str ''/'')),
              re_alts [re_lit (str ''iframe''), re_lit (str ''object''), re_lit (str ''embed''),
                       re_lit (str ''link''), re_lit (str ''style''), re_lit (str ''noscript'')],
              WordB, Star True (NChars [Ch 62]), re_lit (str ''>'')]"

definition re_handler_quoted :: re where
  "re_handler_quoted =
     re_seqs [Chars [Spc], re_lit (str ''on''), re_plus (Chars [Wrd]), Star True (Chars [Spc]),
              re_lit (str ''=''), Star True (Chars [Spc]), Chars [Ch 34, Ch 39],
              Star True (NChars [Ch 34, Ch 39]), Chars [Ch 34, Ch 39]]"

definition re_handler_bare :: re where
  "re_handler_bare =
     re_seqs [Chars [Spc], re_lit (str ''on''), re_plus (Chars [Wrd]), Star True (Chars [Spc]),
              re_lit (str ''=''), Star True (Chars [Spc]), re_plus (NChars [Spc, Ch 62])]"

definition re_jsurl_quoted :: re where
  "re_jsurl_quoted =
     re_seqs [Chars [Spc], Grp 1 (re_alts [re_lit (str ''href''), re_lit (str ''src'')]),
              Star True (Chars [Spc]), re_lit (str ''=''), Star True (Chars [Spc]),
              Chars [Ch 34, Ch 39], Star True (Chars [Spc]), re_lit (str ''javascript:''),
              Star True (NChars [Ch 34, Ch 39]), Chars [Ch 34, Ch 39]]"

definition re_jsurl_bare :: re where
  "re_jsurl_bare =
     re_seqs [Chars [Spc], Grp 1 (re_alts [re_lit (str ''href''), re_lit (str ''src'')]),
              Star True (Chars [Spc]), re_lit (str ''=''), Star True (Chars [Spc]),
              re_lit (str ''javascript:''), re_plus (NChars [Spc, Ch 62])]"

definition sanitizeHtml :: "jsstring \<Rightarrow> jsstring" where
  "sanitizeHtml html =
     (if html = [] then []
      else replaceAll True re_jsurl_bare []
            (replaceAll True re_jsurl_quoted []
              (replaceAll True re_handler_bare []
                (replaceAll True re_handler_quoted []
                  (replaceAll True re_embedded []
                    (replaceAll True re_script [] html))))))"

text \<open>\<open>stripDocumentTags\<close>: six replacements by the empty string (flags \<open>gi\<close>), then \<open>trim\<close>.\<close>

definition re_doctype :: re where
  "re_doctype = re_seqs [re_lit (str ''<!DOCTYPE''), Star True (NChars [Ch 62]), re_lit (str ''>'')]"

definition re_wrapper :: "jsstring \<Rightarrow> re" where
  "re_wrapper name =
     re_seqs [re_lit (str ''<''), re_opt (re_lit (str ''/'')), re_lit name,
              Star True (NChars [Ch 62]), re_lit (str ''>'')]"

definition re_meta :: re where
  "re_meta = re_seqs [re_lit (str ''<meta''), Star True (NChars [Ch 62]), re_lit (str ''>'')]"

definition re_title :: re where
  "re_title =
     re_seqs [re_lit (str ''<title''), Star True (NChars [Ch 62]), re_lit (str ''>''),
              Star False (Chars [Dot]), re_lit (str ''</title>'')]"

definition stripDocumentTags :: "jsstring \<Rightarrow> jsstring" where
  "stripDocumentTags html =
     (if html = [] then []
      else trim
            (replaceAll True re_title []
              (replaceAll True re_meta []
                (replaceAll True (re_wrapper (str ''body'')) []
                  (replaceAll True (re_wrapper (str ''head'')) []
                    (replaceAll True (re_wrapper (str ''html'')) []
                      (replaceAll True re_doctype [] html)))))))"

section \<open>The relevance filter and the keyword tag extractor\<close>

definition matchesProfession ::
  "config \<Rightarrow> env \<Rightarrow> jsstring \<Rightarrow> jsstring \<Rightarrow> jsstring \<Rightarrow> bool" where
  "matchesProfession cfg E title company description =
     (let text = e_toLowerCase E (title @ str '' '' @ company @ str '' '' @ description)
      in list_ex (\<lambda>keyword. str_includes text keyword) (PROFESSION_KEYWORDS cfg))"

text \<open>
  \<open>PROFESSION_TAGS\<close>; 233, 232, 226 and 224 are the letters e acute, e grave, a circumflex
  and a grave.
\<close>

definition tags_conducteur :: "jsstring list" where
  "tags_conducteur =
     [str ''permis ce'', str ''permis c'', str ''spl'', str ''poids lourd'',
      str ''super poids lourd'', str ''fimo'', str ''fco'', str ''adr'',
      str ''mati'' @ [232] @ str ''res dangereuses'', str ''tachygraphe'',
      str ''semi-remorque'', str ''remorque'', str ''solo'', str ''plateau'', str ''citerne'',
      str ''b'' @ [226] @ str ''ch'' @ [233], str ''frigorifique'',
      str ''distribution'', str ''navettes'', str ''r'' @ [233] @ str ''gional'', str ''national'',
      str ''international'', str ''travail de nuit'', str ''week-end'', str ''rotation'',
      str ''planification de tourn'' @ [233] @ str ''e'']"

definition tags_truck_driver :: "jsstring list" where
  "tags_truck_driver =
     [str ''class 1'', str ''class a'', str ''cdl'', str ''long haul'', str ''regional'',
      str ''local'', str ''tanker'', str ''flatbed'', str ''otr'', str ''hazmat'']"

definition tags_chauffeur :: "jsstring list" where
  "tags_chauffeur =
     [str ''pl'', str ''spl'', str ''permIs c'', str ''permis ce'', str ''fimo'', str ''fco'']"

definition tags_warehouse :: "jsstring list" where
  "tags_warehouse =
     [str ''chariot'', str ''cariste'', str ''pr'' @ [233] @ str ''parateur'',
      str ''exp'' @ [233] @ str ''dition'', str ''r'' @ [233] @ str ''ception'',
      str ''inventaire'']"

definition PROFESSION_TAGS :: "jsstring \<Rightarrow> jsstring list option" where
  "PROFESSION_TAGS k =
     (if k = str ''conducteur routier'' then Some tags_conducteur
      else if k = str ''truck driver'' then Some tags_truck_driver
      else if k = str ''chauffeur poids lourd'' then Some tags_chauffeur
      else if k = str ''warehouse'' then Some tags_warehouse
      else None)"

definition re_tag_remote :: re where
  "re_tag_remote =
     Grp 1 (re_alts [re_lit (str ''t'' @ [233] @ str ''l'' @ [233] @ str ''travail''),
                     re_lit (str ''remote''),
                     re_lit (str ''travail '' @ [224] @ str '' distance'')])"

definition re_tag_fulltime :: re where
  "re_tag_fulltime =
     Grp 1 (re_alts [re_lit (str ''temps plein''),
                     re_seqs [re_lit (str ''full''), re_opt (Chars [Ch 45, Spc]), re_lit (str ''time'')],
                     re_lit (str ''plein temps'')])"

definition re_tag_parttime :: re where
  "re_tag_parttime =
     Grp 1 (re_alts [re_lit (str ''temps partiel''),
                     re_seqs [re_lit (str ''part''), re_opt (Chars [Ch 45, Spc]), re_lit (str ''time'')],
                     re_lit (str ''mi-temps'')])"

definition re_tag_cdi :: re where
  "re_tag_cdi = Grp 1 (re_alts [re_lit (str ''cdi''), re_lit (str ''permanent'')])"

definition re_tag_contract :: re where
  "re_tag_contract =
     Grp 1 (re_alts [re_lit (str ''cdd''), re_lit (str ''int'' @ [233] @ str ''rim''),
                     re_lit (str ''interim''), re_lit (str ''contrat''),
                     re_lit (str ''temporaire'')])"

definition extractTags :: "config \<Rightarrow> env \<Rightarrow> jsstring \<Rightarrow> jsstring \<Rightarrow> jsstring \<Rightarrow> jsstring list" where
  "extractTags cfg E title company html =
     (let text = e_toLowerCase E (title @ str '' '' @ company @ str '' '' @
                                  take 1000 (e_convert E (Wordwrap 120) html));
          profKey = e_toLowerCase E (TARGET_PROFESSION cfg);
          profTags = (case PROFESSION_TAGS profKey of Some ts \<Rightarrow> ts | None \<Rightarrow> tags_conducteur);
          found = filter (\<lambda>t. str_includes text t) profTags
            @ (if re_test True re_tag_remote text
               then [str ''t'' @ [233] @ str ''l'' @ [233] @ str ''travail''] else [])
            @ (if re_test True re_tag_fulltime text then [str ''temps plein''] else [])
            @ (if re_test True re_tag_parttime text then [str ''temps partiel''] else [])
            @ (if re_test True re_tag_cdi text then [str ''cdi''] else [])
            @ (if re_test True re_tag_contract text then [str ''contrat''] else [])
            @ [e_toLowerCase E (TARGET_PROFESSION cfg)]
      in uniqNormTags (e_toLowerCase E) (map JStr found))"

section \<open>The enrichment engine\<close>

record rich =
  r_short :: jsstring
  r_html :: jsstring
  r_tags :: "jsstring list"
  usedAI :: bool

text \<open>
  The seven-section body of the fallback. 192, 233, 224, 8217, 8220 and 8221 are A grave,
  e acute, a grave, the right single quote and the two double quotes; 10 is the line feed.
\<close>

definition h2_about :: jsstring where
  "h2_about = str ''<section><h2>'' @ [192] @ str '' propos du poste</h2>''"

definition fallbackHTML :: "jsstring \<Rightarrow> jsstring" where
  "fallbackHTML paragraphs =
     trim ([10] @
       h2_about @
       (if paragraphs \<noteq> [] then paragraphs
        else str ''<p>D'' @ [233] @ str ''tails fournis par l'' @ [8217] @ str ''employeur.</p>'') @
       str ''</section>'' @ [10] @
       str ''<section><h2>Responsabilit'' @ [233] @ str ''s</h2><ul><li>R'' @ [233] @
       str ''aliser les missions d'' @ [233] @ str ''crites.</li></ul></section>'' @ [10] @
       str ''<section><h2>Profil recherch'' @ [233] @ str ''</h2><ul><li>Exp'' @ [233] @
       str ''rience pertinente ou motivation '' @ [224] @ str '' apprendre.</li></ul></section>'' @ [10] @
       str ''<section><h2>Avantages</h2><ul><li>Avantages selon la description.</li></ul></section>'' @ [10] @
       str ''<section><h2>R'' @ [233] @ str ''mun'' @ [233] @ str ''ration</h2><p>'' @ [192] @
       str '' discuter.</p></section>'' @ [10] @
       str ''<section><h2>Lieu & Horaires</h2><p>Selon la description.</p></section>'' @ [10] @
       str ''<section><h2>Candidater</h2><p>Utilisez le bouton '' @ [8220] @ str ''Postuler'' @
       [8221] @ str ''.</p></section>'' @ [10])"

definition fallback :: "config \<Rightarrow> env \<Rightarrow> jsstring \<Rightarrow> jsstring \<Rightarrow> jsstring \<Rightarrow> jsstring \<Rightarrow> rich" where
  "fallback cfg E plain title company html =
     (let paragraphs =
            join [10]
              (map (\<lambda>p. str ''<p>'' @ escapeHtml p @ str ''</p>'')
                 (take 6 (filter (\<lambda>p. p \<noteq> []) (split_re False (re_plus (Chars [Ch 10])) plain))))
      in \<lparr>r_short = truncateWords plain 45,
          r_html = sanitizeHtml (fallbackHTML paragraphs),
          r_tags = extractTags cfg E title company html,
          usedAI = False\<rparr>)"

text \<open>
  The three blocks of the output contract:
  \<open>/===DESCRIPTION===\s*([\s\S]*?)\s*===HTML===/i\<close>,
  \<open>/===HTML===\s*([\s\S]*?)\s*===TAGS===/i\<close>, \<open>/===TAGS===\s*([\s\S]*)$/i\<close>, and the
  array inside the tag block, \<open>/\[[\s\S]*\]/\<close>.
\<close>

definition re_desc_block :: re where
  "re_desc_block =
     re_seqs [re_lit (str ''===DESCRIPTION===''), Star True (Chars [Spc]),
              Grp 1 (Star False (Chars [Spc, NSpc])), Star True (Chars [Spc]),
              re_lit (str ''===HTML==='')]"

definition re_html_block :: re where
  "re_html_block =
     re_seqs [re_lit (str ''===HTML===''), Star True (Chars [Spc]),
              Grp 1 (Star False (Chars [Spc, NSpc])), Star True (Chars [Spc]),
              re_lit (str ''===TAGS==='')]"

definition re_tags_block :: re where
  "re_tags_block =
     re_seqs [re_lit (str ''===TAGS===''), Star True (Chars [Spc]),
              Grp 1 (Star True (Chars [Spc, NSpc])), Eol]"

definition re_json_array :: re where
  "re_json_array = re_seqs [re_lit (str ''[''), Star True (Chars [Spc, NSpc]), re_lit (str '']'')]"

text \<open>\<open>m?.[i] || ''\<close> for a match that may be \<open>null\<close>.\<close>

definition groupOrEmpty :: "rmatch option \<Rightarrow> nat \<Rightarrow> jsstring" where
  "groupOrEmpty m i = (case m of None \<Rightarrow> [] | Some mm \<Rightarrow> orEmpty (re_group mm i))"

definition aboutSection :: "jsstring \<Rightarrow> jsstring" where
  "aboutSection short = h2_about @ str ''<p>'' @ escapeHtml short @ str ''</p></section>''"

definition userMessage :: "jsstring \<Rightarrow> jsstring \<Rightarrow> jsstring \<Rightarrow> jsstring" where
  "userMessage title company plain =
     str ''Offre: '' @ (if title = [] then str ''N/A'' else title) @ [10] @
     str ''Entreprise: '' @ (if company = [] then str ''N/A'' else company) @ [10] @
     str ''Texte:'' @ [10] @ plain"

text \<open>The \<open>try\<close> block of \<open>rewriteJobRich\<close> once the backend has answered with \<open>out\<close>.\<close>

definition parseAI :: "config \<Rightarrow> env \<Rightarrow> jsstring \<Rightarrow> jsstring \<Rightarrow> jsstring \<Rightarrow> jsstring \<Rightarrow> rich" where
  "parseAI cfg E title company html out =
     (let descMatch = re_exec True re_desc_block out;
          htmlMatch = re_exec True re_html_block out;
          tagsMatch = re_exec True re_tags_block out;
          short0 = trim (groupOrEmpty descMatch 1);
          short1 = (if short0 = [] then take 300 (e_convert E (Wordwrap 120) out) else short0);
          short = take 600 (trim (e_convert E (Wordwrap 120) short1));
          htmlOut0 = trim (groupOrEmpty htmlMatch 1);
          htmlOut1 = (if htmlOut0 = [] then aboutSection short else htmlOut0);
          htmlOut2 = stripDocumentTags htmlOut1;
          htmlOut = (if length htmlOut2 < 50 then aboutSection short else htmlOut2);
          tagsParsed =
            (case re_exec False re_json_array (groupOrEmpty tagsMatch 1) of
               None \<Rightarrow> None
             | Some m \<Rightarrow> e_JSON_parse E (m_text m));
          tagList =
            uniqNormTags (e_toLowerCase E)
              (case tagsParsed of
                 Some arr \<Rightarrow> arr
               | None \<Rightarrow> map JStr (extractTags cfg E title company html))
      in \<lparr>r_short = short, r_html = sanitizeHtml htmlOut, r_tags = tagList, usedAI = True\<rparr>)"

text \<open>
  \<open>rewriteJobRich({title, company, html}, useAI)\<close>. The client \<open>openai\<close> exists exactly when
  \<open>HAS_OPENAI\<close> holds. A backend that raises is caught and answered by \<open>fallback()\<close>.
\<close>

definition rewriteJobRich :: "config \<Rightarrow> env \<Rightarrow> jsstring \<Rightarrow> jsstring \<Rightarrow> jsstring \<Rightarrow> bool \<Rightarrow> rich" where
  "rewriteJobRich cfg E title company html useAI =
     (let plain = take 9000 (e_convert E (WordwrapIgnoreHref 120) html) in
      if \<not> HAS_OPENAI cfg \<or> \<not> useAI then fallback cfg E plain title company html
      else
        (case e_openai E (userMessage title company plain) of
           Raises e \<Rightarrow> fallback cfg E plain title company html
         | Content out \<Rightarrow> parseAI cfg E title company html out))"

section \<open>Persistence\<close>

text \<open>
  The parameters of \<open>stmtInsertJob\<close>. \<open>INSERT OR IGNORE\<close> skips a row whose \<open>guid\<close> or \<open>slug\<close>
  is already stored (both columns are UNIQUE); a new row gets the next id.
\<close>

record job_params =
  p_guid :: jsstring
  p_source :: jsstring
  p_title :: jsstring
  p_company :: jsstring
  p_description_html :: jsstring
  p_description_short :: jsstring
  p_url :: jsstring
  p_published_at :: "int option"
  p_slug :: jsstring
  p_tags_csv :: jsstring

definition stmtInsertJob :: "db \<Rightarrow> job_params \<Rightarrow> db" where
  "stmtInsertJob d p =
     (if list_ex (\<lambda>j. job_guid j = p_guid p \<or> job_slug j = p_slug p) (jobs d) then d
      else d\<lparr>jobs := jobs d @
                 [\<lparr>job_id = jobs_seq d + 1, job_guid = p_guid p, job_source = p_source p,
                   job_title = p_title p, job_company = p_company p,
                   description_html = p_description_html p,
                   description_short = p_description_short p, job_url = p_url p,
                   published_at = p_published_at p, job_slug = p_slug p,
                   tags_csv = p_tags_csv p\<rparr>],
             jobs_seq := jobs_seq d + 1\<rparr>)"

definition stmtInsertTag :: "db \<Rightarrow> jsstring \<Rightarrow> jsstring \<Rightarrow> db" where
  "stmtInsertTag d name sl =
     (if list_ex (\<lambda>t. tag_name t = name \<or> tag_slug t = sl) (tags_table d) then d
      else d\<lparr>tags_table := tags_table d @
                 [\<lparr>tag_id = tags_seq d + 1, tag_name = name, tag_slug = sl\<rparr>],
             tags_seq := tags_seq d + 1\<rparr>)"

definition stmtGetTagByName :: "db \<Rightarrow> jsstring \<Rightarrow> tag option" where
  "stmtGetTagByName d name =
     (case filter (\<lambda>t. tag_name t = name) (tags_table d) of [] \<Rightarrow> None | t # _ \<Rightarrow> Some t)"

definition stmtInsertJobTag :: "db \<Rightarrow> int \<Rightarrow> int \<Rightarrow> db" where
  "stmtInsertJobTag d jid tid =
     (if (jid, tid) \<in> set (job_tags d) then d else d\<lparr>job_tags := job_tags d @ [(jid, tid)]\<rparr>)"

definition upsertTagsForJob :: "env \<Rightarrow> db \<Rightarrow> int \<Rightarrow> jsstring list \<Rightarrow> db" where
  "upsertTagsForJob E d jobId names =
     fold (\<lambda>name d0.
             let d1 = stmtInsertTag d0 name (tagSlug E name)
             in case stmtGetTagByName d1 name of
                  None \<Rightarrow> d1
                | Some t \<Rightarrow> stmtInsertJobTag d1 jobId (tag_id t))
          names d"

text \<open>\<open>insertBatch\<close>, one transaction over the rows of a batch.\<close>

definition insertBatch :: "env \<Rightarrow> db \<Rightarrow> job_params list \<Rightarrow> db" where
  "insertBatch E d batchRows =
     fold (\<lambda>p d0.
             let d1 = stmtInsertJob d0 p
             in case stmtHasGuid d1 (p_guid p) of
                  None \<Rightarrow> d1
                | Some jid \<Rightarrow>
                    upsertTagsForJob E d1 jid
                      (filter (\<lambda>t. t \<noteq> []) (split_re False (re_lit (str '', '')) (p_tags_csv p))))
          batchRows d"

section \<open>The pipeline orchestrator\<close>

text \<open>
  The record under construction (\<open>currentItem\<close>) and a record kept for enrichment (an entry
  of \<open>batch\<close>).
\<close>

record item =
  it_title :: jsstring
  it_description :: jsstring
  it_company :: jsstring
  it_link :: jsstring
  it_guid :: jsstring
  it_pubDate :: jsstring

record raw_job =
  rawTitle :: jsstring
  rawCompany :: jsstring
  rawDescription :: jsstring
  raw_guid :: jsstring
  raw_source :: jsstring
  raw_url :: jsstring
  raw_published_at :: "int option"

text \<open>
  The promise \<open>processFeed\<close> awaits, and the lines of the console that matter here (the
  progress reports are left out).
\<close>

datatype settled = Pending | Resolved | Rejected jsstring

datatype log_line =
    LogAlreadyRunning
  | LogNoFeedUrl
  | LogSaxError jsstring
  | LogFeedError jsstring

text \<open>The local variables of one call of \<open>processFeed\<close>, with the store and the console.\<close>

record run =
  run_db :: db
  run_console :: "log_line list"
  matched :: nat
  processed :: nat
  skipped :: nat
  aiEnhanced :: nat
  fallbackUsed :: nat
  batch :: "raw_job list"
  currentItem :: "item option"
  currentTag :: jsstring
  currentText :: jsstring
  promise :: settled

definition resolve :: "run \<Rightarrow> run" where
  "resolve r = (if promise r = Pending then r\<lparr>promise := Resolved\<rparr> else r)"

definition reject :: "jsstring \<Rightarrow> run \<Rightarrow> run" where
  "reject e r = (if promise r = Pending then r\<lparr>promise := Rejected e\<rparr> else r)"

definition isRecordTag :: "jsstring \<Rightarrow> bool" where
  "isRecordTag t \<longleftrightarrow> t = str ''job'' \<or> t = str ''item''"

definition on_opentag :: "env \<Rightarrow> jsstring \<Rightarrow> run \<Rightarrow> run" where
  "on_opentag E name r =
     (let t = e_toLowerCase E name;
          r1 = r\<lparr>currentTag := t, currentText := []\<rparr>
      in if isRecordTag t
         then r1\<lparr>currentItem :=
                   Some \<lparr>it_title = [], it_description = [], it_company = [], it_link = [],
                         it_guid = [], it_pubDate = e_nowISO E\<rparr>\<rparr>
         else r1)"

definition on_text :: "jsstring \<Rightarrow> run \<Rightarrow> run" where
  "on_text t r = r\<lparr>currentText := currentText r @ t\<rparr>"

text \<open>The \<open>switch\<close> of the \<open>closetag\<close> handler: the field a closing tag sets.\<close>

definition setField :: "jsstring \<Rightarrow> jsstring \<Rightarrow> item \<Rightarrow> item" where
  "setField tagName txt it =
     (if tagName = str ''title'' then it\<lparr>it_title := trim txt\<rparr>
      else if tagName = str ''description'' then it\<lparr>it_description := trim txt\<rparr>
      else if tagName = str ''company'' then it\<lparr>it_company := trim txt\<rparr>
      else if tagName = str ''url'' \<or> tagName = str ''link'' then it\<lparr>it_link := trim txt\<rparr>
      else if tagName = str ''guid'' \<or> tagName = str ''referencenumber''
        then (if it_guid it = [] then it\<lparr>it_guid := trim txt\<rparr> else it)
      else if tagName = str ''pubdate'' \<or> tagName = str ''date_updated''
        then it\<lparr>it_pubDate := trim txt\<rparr>
      else it)"

text \<open>\<open>currentItem.guid || currentItem.link || `job-${processed}`\<close>.\<close>

definition identityOf :: "item \<Rightarrow> nat \<Rightarrow> jsstring" where
  "identityOf it n =
     (if it_guid it \<noteq> [] then it_guid it
      else if it_link it \<noteq> [] then it_link it
      else str ''job-'' @ digitsOf n)"

definition on_closetag :: "config \<Rightarrow> env \<Rightarrow> jsstring \<Rightarrow> run \<Rightarrow> run" where
  "on_closetag cfg E name r =
     (let tagName = e_toLowerCase E name in
      case currentItem r of
        None \<Rightarrow> r
      | Some it0 \<Rightarrow>
          (let it = setField tagName (currentText r) it0;
               r1 = r\<lparr>currentItem := Some it\<rparr>
           in if isRecordTag tagName then
                (let r2 = r1\<lparr>processed := processed r1 + 1\<rparr>;
                     g = identityOf it (processed r2)
                 in if stmtHasGuid (run_db r2) g \<noteq> None
                    then r2\<lparr>skipped := skipped r2 + 1, currentItem := None\<rparr>
                    else if \<not> matchesProfession cfg E (it_title it) (it_company it)
                                  (it_description it)
                    then r2\<lparr>skipped := skipped r2 + 1, currentItem := None\<rparr>
                    else r2\<lparr>matched := matched r2 + 1,
                            batch := batch r2 @
                              [\<lparr>rawTitle = it_title it, rawCompany = it_company it,
                                rawDescription = it_description it, raw_guid = g,
                                raw_source = e_hostname E (FEED_URL cfg), raw_url = it_link it,
                                raw_published_at = e_unixtime E (it_pubDate it)\<rparr>],
                            currentItem := None\<rparr>)
              else r1))"

text \<open>
  The \<open>end\<close> handler: every record of \<open>batch\<close> is enriched in turn, the rows are written in
  batches of \<open>batchSize\<close>, then the promise is resolved.
\<close>

definition batchSize :: nat where
  "batchSize = 100"

record enrich_state =
  es_db :: db
  es_aiEnhanced :: nat
  es_fallbackUsed :: nat
  processedBatch :: "job_params list"

definition enrichOne :: "config \<Rightarrow> env \<Rightarrow> raw_job \<Rightarrow> enrich_state \<Rightarrow> enrich_state" where
  "enrichOne cfg E rawJob st =
     (let shouldUseAI = (AI_PROCESS_LIMIT cfg = 0 \<or> es_aiEnhanced st < AI_PROCESS_LIMIT cfg);
          res = rewriteJobRich cfg E (rawTitle rawJob) (rawCompany rawJob) (rawDescription rawJob)
                  shouldUseAI;
          st1 = (if usedAI res then st\<lparr>es_aiEnhanced := es_aiEnhanced st + 1\<rparr>
                 else st\<lparr>es_fallbackUsed := es_fallbackUsed st + 1\<rparr>);
          s1 = mkSlug E (rawTitle rawJob @ str ''-'' @ rawCompany rawJob);
          s2 = (if s1 \<noteq> [] then s1 else mkSlug E (rawTitle rawJob));
          sl = (if s2 \<noteq> [] then s2 else mkSlug E (raw_guid rawJob));
          row = \<lparr>p_guid = raw_guid rawJob, p_source = raw_source rawJob,
                 p_title = (if rawTitle rawJob \<noteq> [] then rawTitle rawJob else str ''Sans titre''),
                 p_company = rawCompany rawJob,
                 p_description_html = r_html res,
                 p_description_short = truncateWords (r_short res) 60,
                 p_url = raw_url rawJob,
                 p_published_at = raw_published_at rawJob,
                 p_slug = sl,
                 p_tags_csv = join (str '', '') (r_tags res)\<rparr>;
          pb = processedBatch st1 @ [row]
      in if length pb \<ge> batchSize
         then st1\<lparr>es_db := insertBatch E (es_db st1) pb, processedBatch := []\<rparr>
         else st1\<lparr>processedBatch := pb\<rparr>)"

definition on_end :: "config \<Rightarrow> env \<Rightarrow> run \<Rightarrow> run" where
  "on_end cfg E r =
     (if batch r = [] then resolve r
      else
        (let st = fold (enrichOne cfg E) (batch r)
                    \<lparr>es_db = run_db r, es_aiEnhanced = aiEnhanced r,
                     es_fallbackUsed = fallbackUsed r, processedBatch = []\<rparr>;
             d = (if processedBatch st \<noteq> [] then insertBatch E (es_db st) (processedBatch st)
                  else es_db st)
         in resolve (r\<lparr>run_db := d, aiEnhanced := es_aiEnhanced st,
                        fallbackUsed := es_fallbackUsed st\<rparr>)))"

text \<open>
  The listeners, in the order in which they were registered: a parser error is logged by
  the first \<open>error\<close> listener and rejects the promise in the second; an error of the stream
  rejects it.
\<close>

fun handle :: "config \<Rightarrow> env \<Rightarrow> event \<Rightarrow> run \<Rightarrow> run" where
  "handle cfg E (OpenTag name) r = on_opentag E name r"
| "handle cfg E (TextEv t) r = on_text t r"
| "handle cfg E (CData t) r = on_text t r"
| "handle cfg E (CloseTag name) r = on_closetag cfg E name r"
| "handle cfg E (ParserError e) r = reject e (r\<lparr>run_console := run_console r @ [LogSaxError e]\<rparr>)"
| "handle cfg E (StreamError e) r = reject e r"
| "handle cfg E EndEv r = on_end cfg E r"

definition feedEvents :: "config \<Rightarrow> env \<Rightarrow> event list \<Rightarrow> run \<Rightarrow> run" where
  "feedEvents cfg E evs r = fold (handle cfg E) evs r"

text \<open>
  The module state and \<open>processFeed\<close>. The call returns, raises, or never gets past the
  \<open>await\<close> of a promise that nothing settles. The \<open>catch\<close> block logs and raises again; the
  \<open>finally\<close> block clears \<open>FEED_RUNNING\<close>.
\<close>

record globals =
  FEED_RUNNING :: bool
  database :: db
  console :: "log_line list"

datatype outcome = Returned | Raised jsstring | NeverSettles

definition startRun :: "globals \<Rightarrow> run" where
  "startRun g =
     \<lparr>run_db = database g, run_console = console g, matched = 0, processed = 0, skipped = 0,
      aiEnhanced = 0, fallbackUsed = 0, batch = [], currentItem = None, currentTag = [],
      currentText = [], promise = Pending\<rparr>"

definition processFeed :: "config \<Rightarrow> env \<Rightarrow> globals \<Rightarrow> outcome \<times> globals" where
  "processFeed cfg E g =
     (if FEED_RUNNING g then (Returned, g\<lparr>console := console g @ [LogAlreadyRunning]\<rparr>)
      else if FEED_URL cfg = [] then (Returned, g\<lparr>console := console g @ [LogNoFeedUrl]\<rparr>)
      else
        (let g1 = g\<lparr>FEED_RUNNING := True\<rparr> in
         case e_fetch E (FEED_URL cfg) of
           FetchError e \<Rightarrow>
             (Raised e, g1\<lparr>console := console g1 @ [LogFeedError e], FEED_RUNNING := False\<rparr>)
         | Stream evs \<Rightarrow>
             (let r = feedEvents cfg E evs (startRun g1) in
              case promise r of
                Pending \<Rightarrow>
                  (NeverSettles, g1\<lparr>database := run_db r, console := run_console r\<rparr>)
              | Rejected e \<Rightarrow>
                  (Raised e,
                   g1\<lparr>database := run_db r, console := run_console r @ [LogFeedError e],
                      FEED_RUNNING := False\<rparr>)
              | Resolved \<Rightarrow>
                  (Returned,
                   g1\<lparr>database := retention (MAX_JOBS cfg) (e_now E) (run_db r),
                      console := run_console r, FEED_RUNNING := False\<rparr>))))"

section \<open>Feeds and records used as examples\<close>

text \<open>
  A record element whose children are simple elements \<open><name>text</name>\<close>, as the events
  the parser emits for them, and what the specification and the code say about its link
  and its identity.
\<close>

definition childEvents :: "(jsstring \<times> jsstring) list \<Rightarrow> event list" where
  "childEvents cs = concat (map (\<lambda>(n, t). [OpenTag n, TextEv t, CloseTag n]) cs)"

definition isLinkName :: "env \<Rightarrow> jsstring \<Rightarrow> bool" where
  "isLinkName E n \<longleftrightarrow> e_toLowerCase E n = str ''url'' \<or> e_toLowerCase E n = str ''link''"

definition isGuidName :: "env \<Rightarrow> jsstring \<Rightarrow> bool" where
  "isGuidName E n \<longleftrightarrow>
     e_toLowerCase E n = str ''guid'' \<or> e_toLowerCase E n = str ''referencenumber''"

definition lastLink :: "env \<Rightarrow> (jsstring \<times> jsstring) list \<Rightarrow> jsstring" where
  "lastLink E cs =
     (case rev (filter (\<lambda>(n, t). isLinkName E n) cs) of [] \<Rightarrow> [] | (n, t) # _ \<Rightarrow> trim t)"

definition firstLink :: "env \<Rightarrow> (jsstring \<times> jsstring) list \<Rightarrow> jsstring" where
  "firstLink E cs =
     (case filter (\<lambda>(n, t). isLinkName E n) cs of [] \<Rightarrow> [] | (n, t) # _ \<Rightarrow> trim t)"

definition firstGuid :: "env \<Rightarrow> (jsstring \<times> jsstring) list \<Rightarrow> jsstring" where
  "firstGuid E cs =
     (case filter (\<lambda>(n, t). isGuidName E n \<and> trim t \<noteq> []) cs of
        [] \<Rightarrow> [] | (n, t) # _ \<Rightarrow> trim t)"

definition plainChildren :: "env \<Rightarrow> (jsstring \<times> jsstring) list \<Rightarrow> bool" where
  "plainChildren E cs = list_all (\<lambda>(n, t). \<not> isRecordTag (e_toLowerCase E n)) cs"

text \<open>Events that settle the promise.\<close>

fun settles :: "event \<Rightarrow> bool" where
  "settles (ParserError e) = True"
| "settles (StreamError e) = True"
| "settles EndEv = True"
| "settles ev = False"

text \<open>
  A configuration, an environment around a given feed and a given answer of the AI
  backend, an empty store, and a feed that breaks off after one relevant record.
\<close>

definition cfg_ex :: config where
  "cfg_ex =
     \<lparr>FEED_URL = str ''https://feed.example/jobs.xml'', MAX_JOBS = 2, HAS_OPENAI = True,
      TARGET_PROFESSION = str ''conducteur routier'', AI_PROCESS_LIMIT = 0,
      PROFESSION_KEYWORDS = [str ''poids lourd'', str ''spl'']\<rparr>"

definition env_ex :: "event list \<Rightarrow> ai_reply \<Rightarrow> env" where
  "env_ex evs reply =
     \<lparr>e_toLowerCase = lowerLatin1, e_convert = (\<lambda>opts s. s), e_slugify = lowerLatin1,
      e_hostname = (\<lambda>u. str ''feed.example''), e_JSON_parse = (\<lambda>s. None),
      e_unixtime = (\<lambda>s. Some 1700000000), e_now = 1700000100,
      e_nowISO = str ''2023-11-14T22:15:00.000Z'', e_openai = (\<lambda>m. reply),
      e_fetch = (\<lambda>u. Stream evs)\<rparr>"

definition db0 :: db where
  "db0 = \<lparr>jobs = [], jobs_seq = 0, tags_table = [], tags_seq = 0, job_tags = [],
          stats_cache = Map.empty\<rparr>"

definition g0 :: globals where
  "g0 = \<lparr>FEED_RUNNING = False, database = db0, console = []\<rparr>"

definition broken_feed :: "event list" where
  "broken_feed =
     [OpenTag (str ''item''),
      OpenTag (str ''guid''), TextEv (str ''A1''), CloseTag (str ''guid''),
      OpenTag (str ''title''), TextEv (str ''Chauffeur SPL''), CloseTag (str ''title''),
      CloseTag (str ''item''),
      ParserError (str ''Unexpected end'')]"

definition two_links :: "(jsstring \<times> jsstring) list" where
  "two_links = [(str ''link'', str ''https://a.example/1''), (str ''url'', str ''https://b.example/2'')]"

definition two_links_feed :: "event list" where
  "two_links_feed =
     OpenTag (str ''item'') #
     childEvents ((str ''title'', str ''Chauffeur SPL'') # two_links) @ [CloseTag (str ''item'')]"

definition children_ex :: "(jsstring \<times> jsstring) list" where
  "children_ex =
     [(str ''guid'', str ''  ''), (str ''referencenumber'', str ''R-7''), (str ''guid'', str ''G-9''),
      (str ''link'', str ''https://a.example/1''), (str ''url'', str ''https://b.example/2'')]"



section \<open>Properties of tag normalisation\<close>

lemma lowerLatin1Unit_idem: "lowerLatin1Unit (lowerLatin1Unit c) = lowerLatin1Unit c"
  by (simp add: lowerLatin1Unit_def)

lemma isSpace_lowerLatin1Unit: "isSpace (lowerLatin1Unit c) = isSpace c"
  by (auto simp: lowerLatin1Unit_def isSpace_def)

lemma lowerLatin1_idem: "lowerLatin1 (lowerLatin1 s) = lowerLatin1 s"
  by (simp add: lowerLatin1_def lowerLatin1Unit_idem)

lemma dropWhile_isSpace_lower:
  "dropWhile isSpace (map lowerLatin1Unit s) = map lowerLatin1Unit (dropWhile isSpace s)"
  by (induction s) (simp_all add: isSpace_lowerLatin1Unit)

lemma trim_lowerLatin1: "trim (lowerLatin1 s) = lowerLatin1 (trim s)"
  by (simp add: trim_def lowerLatin1_def dropWhile_isSpace_lower rev_map)

lemma lowerCasing_lowerLatin1: "lowerCasing lowerLatin1"
  by (simp add: lowerCasing_def lowerLatin1_idem trim_lowerLatin1)

lemma dropWhile_fix: "xs = [] \<or> \<not> P (hd xs) \<Longrightarrow> dropWhile P xs = xs"
  by (cases xs) auto

lemma trim_idem: "trim (trim s) = trim s"
proof -
  define u where "u = dropWhile isSpace s"
  define v where "v = rev (dropWhile isSpace (rev u))"
  have u: "u = [] \<or> \<not> isSpace (hd u)"
    unfolding u_def using hd_dropWhile [of isSpace s] by blast
  have "rev (takeWhile isSpace (rev u) @ dropWhile isSpace (rev u)) = rev (rev u)"
    by (simp only: takeWhile_dropWhile_id)
  then have split: "u = v @ rev (takeWhile isSpace (rev u))"
    by (simp only: rev_append rev_rev_ident v_def)
  have vh: "v = [] \<or> \<not> isSpace (hd v)"
  proof (cases "v = []")
    case True then show ?thesis by simp
  next
    case False
    then have "hd u = hd v" using split hd_append2 [of v "rev (takeWhile isSpace (rev u))"] by simp
    moreover have "u \<noteq> []" using False split by auto
    ultimately show ?thesis using u by simp
  qed
  have vl: "rev v = [] \<or> \<not> isSpace (hd (rev v))"
    unfolding v_def using hd_dropWhile [of isSpace "rev u"] by auto
  have "dropWhile isSpace v = v" using vh by (rule dropWhile_fix)
  moreover have "dropWhile isSpace (rev v) = rev v" using vl by (rule dropWhile_fix)
  ultimately have "trim v = v" by (simp add: trim_def)
  moreover have "trim s = v" by (simp add: trim_def u_def v_def)
  ultimately show ?thesis by simp
qed

lemma lowerCasing_idem: "lowerCasing lc \<Longrightarrow> lc (lc s) = lc s"
  by (simp add: lowerCasing_def)

lemma lowerCasing_trim: "lowerCasing lc \<Longrightarrow> trim (lc (trim s)) = lc (trim s)"
  using trim_idem [of s] by (simp add: lowerCasing_def)

lemma normTag_fix:
  assumes "lowerCasing lc"
  shows "normTag lc (JStr (normTag lc t)) = normTag lc t"
  using assms by (simp add: normTag_def lowerCasing_trim lowerCasing_idem)

lemma normTag_trimmed:
  assumes "lowerCasing lc"
  shows "trim (normTag lc t) = normTag lc t"
  using assms by (simp add: normTag_def lowerCasing_trim)

lemma normTag_lowered:
  assumes "lowerCasing lc"
  shows "lc (normTag lc t) = normTag lc t"
  using assms by (simp add: normTag_def lowerCasing_idem)

lemma set_uniqFirst: "set (uniqFirst xs) = set xs"
  by (induction xs rule: uniqFirst.induct) auto

lemma distinct_uniqFirst: "distinct (uniqFirst xs)"
  by (induction xs rule: uniqFirst.induct) (auto simp: set_uniqFirst)

lemma filter_neq_id: "a \<notin> set xs \<Longrightarrow> filter (\<lambda>y. y \<noteq> a) xs = xs"
  by (induction xs) auto

lemma uniqFirst_distinct_id: "distinct xs \<Longrightarrow> uniqFirst xs = xs"
  by (induction xs) (auto simp: filter_neq_id)

lemma survivors_Nil: "survivors lc [] = []"
  by (simp add: survivors_def)

lemma survivors_Cons:
  "survivors lc (t # ts) =
     (if truthy t \<and> normTag lc t \<noteq> [] then normTag lc t # survivors lc ts else survivors lc ts)"
  by (simp add: survivors_def)

lemma filter_notin_insert:
  "filter (\<lambda>y. y \<noteq> x) (filter (\<lambda>s. s \<notin> seen) xs) = filter (\<lambda>s. s \<notin> insert x seen) xs"
  by (induction xs) auto

lemma uniqNormTags_loop_eq:
  "uniqNormTags_loop lc ts seen out =
     out @ uniqFirst (filter (\<lambda>s. s \<notin> seen) (survivors lc ts))"
proof (induction ts arbitrary: seen out)
  case Nil
  then show ?case by (simp add: survivors_Nil)
next
  case (Cons t ts)
  show ?case
  proof (cases "truthy t \<and> normTag lc t \<noteq> []")
    case False
    then show ?thesis using Cons.IH by (auto simp: survivors_Cons normTag_def)
  next
    case True
    show ?thesis
    proof (cases "normTag lc t \<in> seen")
      case True
      with \<open>truthy t \<and> normTag lc t \<noteq> []\<close> show ?thesis
        using Cons.IH by (simp add: survivors_Cons normTag_def)
    next
      case False
      let ?n = "normTag lc t"
      have "uniqNormTags_loop lc (t # ts) seen out =
              uniqNormTags_loop lc ts (insert ?n seen) (out @ [?n])"
        using False \<open>truthy t \<and> normTag lc t \<noteq> []\<close> by (simp add: normTag_def Let_def)
      also have "\<dots> =
          (out @ [?n]) @ uniqFirst (filter (\<lambda>s. s \<notin> insert ?n seen) (survivors lc ts))"
        by (rule Cons.IH)
      also have "\<dots> =
          out @ ?n # uniqFirst (filter (\<lambda>y. y \<noteq> ?n) (filter (\<lambda>s. s \<notin> seen) (survivors lc ts)))"
        by (simp only: filter_notin_insert append_assoc append_Cons append_Nil)
      also have "\<dots> = out @ uniqFirst (filter (\<lambda>s. s \<notin> seen) (survivors lc (t # ts)))"
        using False \<open>truthy t \<and> normTag lc t \<noteq> []\<close>
        by (simp add: survivors_Cons del: filter_filter)
      finally show ?thesis .
    qed
  qed
qed

lemma uniqNormTags_eq_spec: "uniqNormTags lc tags = normalize_spec lc tags"
  by (simp add: uniqNormTags_def normalize_spec_def uniqNormTags_loop_eq survivors_def)

lemma survivors_normal:
  "s \<in> set (survivors lc ts) \<Longrightarrow> s \<noteq> [] \<and> (\<exists>t. s = normTag lc t)"
  by (auto simp: survivors_def)

lemma survivors_fix:
  "(\<And>s. s \<in> set xs \<Longrightarrow> s \<noteq> [] \<and> normTag lc (JStr s) = s) \<Longrightarrow>
   survivors lc (map JStr xs) = xs"
  by (induction xs) (auto simp: survivors_Nil survivors_Cons)

lemma uniqNormTags_norm: "uniqNormTags lc ts = take 8 (uniqFirst (survivors lc ts))"
  by (simp add: uniqNormTags_def uniqNormTags_loop_eq)

lemma uniqNormTags_member:
  assumes "s \<in> set (uniqNormTags lc ts)"
  shows "s \<noteq> [] \<and> (\<exists>t. s = normTag lc t)"
proof -
  from assms have "s \<in> set (uniqFirst (survivors lc ts))"
    unfolding uniqNormTags_norm by (rule in_set_takeD)
  then show ?thesis using survivors_normal by (simp add: set_uniqFirst)
qed

lemma uniqNormTags_distinct: "distinct (uniqNormTags lc ts)"
  by (simp add: uniqNormTags_norm distinct_uniqFirst)

lemma uniqNormTags_tags_example: "uniqNormTags lowerLatin1 tags_example = tags_example_out"
  by (simp add: tags_example_def tags_example_out_def uniqNormTags_def str_def trim_def
      lowerLatin1_def lowerLatin1Unit_def isSpace_def Let_def)

text \<open>
  Claim C5. For any tag list, \<open>uniqNormTags\<close> returns at most eight entries, each non-empty,
  trimmed and lower-case, without duplicates, and the result is the list the specification
  describes: every tag trimmed and lower-cased, the empty ones dropped, duplicates removed
  keeping the first occurrence, cut to the first eight survivors. \<open>toLowerCase\<close> is any
  function \<open>lc\<close> with the two properties of \<open>lowerCasing\<close>; an entry is lower-case when
  \<open>lc\<close> leaves it as it is.
\<close>

theorem uniqNormTags_normalizes:
  assumes "lowerCasing lc"
  shows "uniqNormTags lc tags = normalize_spec lc tags \<and>
         length (uniqNormTags lc tags) \<le> 8 \<and>
         distinct (uniqNormTags lc tags) \<and>
         (\<forall>t \<in> set (uniqNormTags lc tags). t \<noteq> [] \<and> trim t = t \<and> lc t = t)"
proof (intro conjI ballI)
  show "uniqNormTags lc tags = normalize_spec lc tags" by (rule uniqNormTags_eq_spec)
  show "length (uniqNormTags lc tags) \<le> 8" by (simp add: uniqNormTags_def)
  show "distinct (uniqNormTags lc tags)" by (rule uniqNormTags_distinct)
next
  fix t assume "t \<in> set (uniqNormTags lc tags)"
  then have m: "t \<noteq> [] \<and> (\<exists>u. t = normTag lc u)" by (rule uniqNormTags_member)
  then show "t \<noteq> []" by simp
  from m assms show "trim t = t" by (auto simp: normTag_trimmed)
  from m assms show "lc t = t" by (auto simp: normTag_lowered)
qed

theorem uniqNormTags_normalizes_witness:
  "lowerCasing lowerLatin1 \<and>
   normalize_spec lowerLatin1 tags_example = tags_example_out \<and>
   length (uniqNormTags lowerLatin1 tags_example) = 8 \<and>
   list_all (\<lambda>t. t \<noteq> [] \<and> trim t = t \<and> lowerLatin1 t = t) tags_example_out"
proof -
  note inst = uniqNormTags_normalizes [of lowerLatin1 tags_example, OF lowerCasing_lowerLatin1]
  from inst have "normalize_spec lowerLatin1 tags_example = uniqNormTags lowerLatin1 tags_example"
    by simp
  then have a: "normalize_spec lowerLatin1 tags_example = tags_example_out"
    by (simp only: uniqNormTags_tags_example)
  have b: "length (uniqNormTags lowerLatin1 tags_example) = 8"
    by (simp add: uniqNormTags_tags_example tags_example_out_def)
  from inst
  have c: "list_all (\<lambda>t. t \<noteq> [] \<and> trim t = t \<and> lowerLatin1 t = t) tags_example_out"
    unfolding uniqNormTags_tags_example list_all_iff by blast
  from a b c lowerCasing_lowerLatin1 show ?thesis by blast
qed

text \<open>
  Claim C9. Tag normalisation is idempotent: normalising the output of \<open>uniqNormTags\<close>
  again returns it unchanged. \<open>toLowerCase\<close> is any function \<open>lc\<close> with the two properties
  of \<open>lowerCasing\<close>.
\<close>

theorem uniqNormTags_idempotent:
  assumes "lowerCasing lc"
  shows "uniqNormTags lc (map JStr (uniqNormTags lc ts)) = uniqNormTags lc ts"
proof -
  let ?out = "uniqNormTags lc ts"
  have fixed: "s \<noteq> [] \<and> normTag lc (JStr s) = s" if "s \<in> set ?out" for s
  proof -
    from that have "s \<noteq> [] \<and> (\<exists>t. s = normTag lc t)" by (rule uniqNormTags_member)
    then show ?thesis using assms by (auto simp: normTag_fix)
  qed
  have "survivors lc (map JStr ?out) = ?out"
    by (rule survivors_fix) (rule fixed)
  moreover have "uniqFirst ?out = ?out"
    by (rule uniqFirst_distinct_id) (rule uniqNormTags_distinct)
  moreover have "take 8 ?out = ?out"
    by (simp add: uniqNormTags_def)
  ultimately show ?thesis
    by (simp add: uniqNormTags_norm [of lc "map JStr (uniqNormTags lc ts)"])
qed

theorem uniqNormTags_idempotent_witness:
  "lowerCasing lowerLatin1 \<and>
   uniqNormTags lowerLatin1 (map JStr (uniqNormTags lowerLatin1 tags_example)) = tags_example_out"
proof -
  have "lowerCasing lowerLatin1"
    by (simp add: lowerCasing_def lowerLatin1_idem trim_lowerLatin1)
  moreover from this uniqNormTags_idempotent [of lowerLatin1 tags_example]
  have "uniqNormTags lowerLatin1 (map JStr (uniqNormTags lowerLatin1 tags_example)) =
          uniqNormTags lowerLatin1 tags_example"
    by simp
  ultimately show ?thesis by (simp only: uniqNormTags_tags_example)
qed

section \<open>Properties of the salary extractor\<close>

lemma re_rep_1_2: "re_rep 1 2 r = Seq (Seq r Eps) (Alt (Seq r Eps) Eps)"
  by (simp add: re_rep_def eval_nat_numeral re_opt_def)

lemma re_rep_Suc0_2: "re_rep (Suc 0) 2 r = Seq (Seq r Eps) (Alt (Seq r Eps) Eps)"
  by (simp add: re_rep_def eval_nat_numeral re_opt_def)

lemma re_rep_3_6:
  "re_rep 3 6 r =
     Seq (Seq r (Seq r (Seq r Eps)))
         (Alt (Seq r (Alt (Seq r (Alt (Seq r Eps) Eps)) Eps)) Eps)"
  by (simp add: re_rep_def eval_nat_numeral re_opt_def)

lemmas re_build = re_opt_def re_plus_def re_rep_1_2 re_rep_Suc0_2 re_rep_3_6 str_def

lemmas re_run = re_exec_def re_test_def re_exec_from.simps step1_def atWordBoundary_def
  capture_def canonicalize_def upperUnit_def isWordChar_def isDigit_def isSpace_def
  isLineTerminator_def Let_def re_group_def

lemma lowerLatin1_salaire: "lowerLatin1 (salaire_example @ str '' '') = salaire_text"
  by (simp add: salaire_example_def salaire_text_def str_def lowerLatin1_def lowerLatin1Unit_def)

lemma parseMeta_text_salaire:
  "convert (Wordwrap 1000) salaire_example = salaire_example \<Longrightarrow>
   lc (salaire_example @ str '' '') = salaire_text \<Longrightarrow>
   parseMeta_text lc convert salaire_example [] = salaire_text"
  by (simp add: parseMeta_text_def)

lemma salaryUnit_salaire: "salaryUnit salaire_text = YEAR"
  by (simp add: salaryUnit_def re_year_def salaire_text_def re_build re_run)

lemma currencyOf_salaire: "currencyOf salaire_text = Some (str ''EUR'')"
  by (simp add: currencyOf_def re_currency_def salaire_text_def re_build re_run toUpperCase_def)

lemma salaryBounds_salaire: "salaryBounds salaire_text = (Some 28000, Some 35000)"
  by (simp add: salaryBounds_def re_range_def re_amount_def salaire_text_def re_build re_run
      numberOfAmount_def orEmpty_def)

lemma currencyOf_found: "currencyOf text = Some c \<Longrightarrow> re_test True re_currency text"
  by (auto simp: currencyOf_def re_test_def split: option.splits)

lemma salaryBounds_parsed:
  assumes "salaryBounds text = (mn, mx)" and "truthyNum mn \<or> truthyNum mx"
  shows "re_test True re_range text \<or> re_test True re_one text"
  using assms by (auto simp: salaryBounds_def re_test_def truthyNum_def split: option.splits)

lemma parseMeta_salary_Some:
  assumes "parseMeta_salary lc convert textHTML title = Some s"
  shows "re_test True re_currency (parseMeta_text lc convert textHTML title) \<and>
         (re_test True re_range (parseMeta_text lc convert textHTML title) \<or>
          re_test True re_one (parseMeta_text lc convert textHTML title)) \<and>
         (smin s \<noteq> None \<or> smax s \<noteq> None)"
proof -
  let ?text = "parseMeta_text lc convert textHTML title"
  obtain mn mx where b: "salaryBounds ?text = (mn, mx)" by (cases "salaryBounds ?text")
  from assms b obtain c where c: "currencyOf ?text = Some c"
    and t: "truthyNum mn \<or> truthyNum mx"
    and s: "s = \<lparr>currency = c, smin = mn, smax = mx, unit = salaryUnit ?text\<rparr>"
    by (auto simp: parseMeta_salary_def Let_def split: option.splits if_splits)
  from c have "re_test True re_currency ?text" by (rule currencyOf_found)
  moreover from b t have "re_test True re_range ?text \<or> re_test True re_one ?text"
    by (rule salaryBounds_parsed)
  moreover from t s have "smin s \<noteq> None \<or> smax s \<noteq> None"
    by (auto simp: truthyNum_def)
  ultimately show ?thesis by blast
qed

lemma parseMeta_salary_salaire:
  assumes "convert (Wordwrap 1000) salaire_example = salaire_example"
    and "lc (salaire_example @ str '' '') = salaire_text"
  shows "parseMeta_salary lc convert salaire_example [] =
           Some \<lparr>currency = str ''EUR'', smin = Some 28000, smax = Some 35000, unit = YEAR\<rparr>"
  using parseMeta_text_salaire [of convert lc] assms
  by (simp add: parseMeta_salary_def salaryUnit_salaire currencyOf_salaire salaryBounds_salaire
      truthyNum_def)

text \<open>
  Claim C6. \<open>parseMeta\<close> reports a salary only when the currency pattern matched the text
  and the range pattern or the single-bound pattern matched it (so that \<open>min\<close> or \<open>max\<close> is
  set); and for the text of the scenario (\<open>salaire_example\<close>), which \<open>convert\<close> leaves as it
  is and of which \<open>toLowerCase\<close> lowers the capital S only, the salary is exactly EUR, 28000,
  35000, YEAR.
\<close>

theorem parseMeta_salary_only_when:
  "(\<forall>s. parseMeta_salary lc convert textHTML title = Some s \<longrightarrow>
      re_test True re_currency (parseMeta_text lc convert textHTML title) \<and>
      (re_test True re_range (parseMeta_text lc convert textHTML title) \<or>
       re_test True re_one (parseMeta_text lc convert textHTML title)) \<and>
      (smin s \<noteq> None \<or> smax s \<noteq> None)) \<and>
   (convert (Wordwrap 1000) salaire_example = salaire_example \<and>
    lc (salaire_example @ str '' '') = salaire_text \<longrightarrow>
      parseMeta_salary lc convert salaire_example [] =
        Some \<lparr>currency = str ''EUR'', smin = Some 28000, smax = Some 35000, unit = YEAR\<rparr>)"
  using parseMeta_salary_Some [of lc convert textHTML title]
    parseMeta_salary_salaire [of convert lc]
  by blast

theorem parseMeta_salary_only_when_witness:
  "lowerLatin1 (salaire_example @ str '' '') = salaire_text \<and>
   parseMeta_salary lowerLatin1 (\<lambda>opts s. s) salaire_example [] =
     Some \<lparr>currency = str ''EUR'', smin = Some 28000, smax = Some 35000, unit = YEAR\<rparr> \<and>
   re_test True re_currency (parseMeta_text lowerLatin1 (\<lambda>opts s. s) salaire_example []) \<and>
   (re_test True re_range (parseMeta_text lowerLatin1 (\<lambda>opts s. s) salaire_example []) \<or>
    re_test True re_one (parseMeta_text lowerLatin1 (\<lambda>opts s. s) salaire_example []))"
proof -
  note inst = parseMeta_salary_only_when [of lowerLatin1 "\<lambda>opts s. s" salaire_example "[]"]
  have l: "lowerLatin1 (salaire_example @ str '' '') = salaire_text"
    by (simp add: salaire_example_def salaire_text_def str_def lowerLatin1_def
        lowerLatin1Unit_def)
  from inst l have r: "parseMeta_salary lowerLatin1 (\<lambda>opts s. s) salaire_example [] =
     Some \<lparr>currency = str ''EUR'', smin = Some 28000, smax = Some 35000, unit = YEAR\<rparr>"
    by simp
  with inst l show ?thesis by blast
qed

section \<open>Properties of retention pruning\<close>

lemma job_key_inj: "job_key a = job_key b \<Longrightarrow> job_id a = job_id b"
  by (simp add: job_key_def)

lemma distinct_job_keys:
  "distinct (map job_id js) \<Longrightarrow> distinct (map job_key js)"
proof (induction js)
  case Nil then show ?case by simp
next
  case (Cons j js)
  then show ?case by (auto simp: job_key_def image_iff) 
qed


lemma set_order_desc: "set (order_desc js) = set js"
  by (simp add: order_desc_def)

lemma length_order_desc: "length (order_desc js) = length js"
  by (simp add: order_desc_def)


lemma order_desc_descending:
  assumes "distinct (map job_id js)"
  shows "sorted_wrt (\<lambda>a b. job_key b < job_key a) (order_desc js)"
proof -
  have s: "sorted (map job_key (sort_key job_key js))" by (rule sorted_sort_key)
  have "mset (map job_key (sort_key job_key js)) = mset (map job_key js)" by simp
  then have "distinct (map job_key (sort_key job_key js)) = distinct (map job_key js)"
    by (rule mset_eq_imp_distinct_iff)
  with assms have d: "distinct (map job_key (sort_key job_key js))"
    by (simp add: distinct_job_keys)
  from s d have "sorted_wrt (<) (map job_key (sort_key job_key js))"
    by (simp add: strict_sorted_iff)
  then have "sorted_wrt (\<lambda>a b. job_key a < job_key b) (sort_key job_key js)"
    by (simp add: sorted_wrt_map)
  then show ?thesis
    by (simp add: order_desc_def sorted_wrt_rev)
qed









lemma jobs_stmtDeleteOld_cache: "stats_cache (stmtDeleteOld d m) = stats_cache d"
  by (simp add: stmtDeleteOld_def Let_def)




section \<open>Properties of keyset pagination\<close>

lemma digitsOf_digits: "list_all isDigit (digitsOf n)"
proof (induction n rule: digitsOf.induct)
  case (1 n)
  show ?case
  proof (cases "n < 10")
    case True
    then show ?thesis by (subst digitsOf.simps) (simp add: isDigit_def)
  next
    case False
    have "n mod 10 < 10" by simp
    then have "isDigit (48 + n mod 10)" unfolding isDigit_def by linarith
    with False 1 show ?thesis by (subst digitsOf.simps) simp
  qed
qed

lemma numberOfDigits_snoc: "numberOfDigits (s @ [c]) = 10 * numberOfDigits s + (int c - 48)"
  by (simp add: numberOfDigits_def)

lemma numberOfDigits_digitsOf: "numberOfDigits (digitsOf n) = int n"
proof (induction n rule: digitsOf.induct)
  case (1 n)
  show ?case
  proof (cases "n < 10")
    case True
    then show ?thesis by (subst digitsOf.simps) (simp add: numberOfDigits_def)
  next
    case False
    with 1 have ih: "numberOfDigits (digitsOf (n div 10)) = int (n div 10)" by simp
    have "int n = 10 * int (n div 10) + int (n mod 10)"
      by (metis mult_div_mod_eq of_nat_add of_nat_mult of_nat_numeral)
    with False ih show ?thesis
      by (subst digitsOf.simps) (simp add: numberOfDigits_snoc del: of_nat_div of_nat_mod)
  qed
qed

lemma NumberOf_digitsOf: "int n < 2 ^ 53 \<Longrightarrow> NumberOf (digitsOf n) = Some (Num (int n))"
  by (simp add: NumberOf_def digitsOf_digits numberOfDigits_digitsOf)

lemma digitsOf_no_hyphen: "45 \<notin> set (digitsOf n)"
proof
  assume "45 \<in> set (digitsOf n)"
  with digitsOf_digits [of n] have "isDigit 45" by (simp add: list_all_iff)
  then show False by (simp add: isDigit_def)
qed

lemma split_on_none: "sep \<notin> set s \<Longrightarrow> split_on sep s = [s]"
  by (induction s) auto

lemma split_on_first:
  "sep \<notin> set a \<Longrightarrow> split_on sep (a @ sep # b) = a # split_on sep b"
  by (induction a) auto

lemma split_on_digits:
  "split_on 45 (digitsOf a @ 45 # digitsOf b) = [digitsOf a, digitsOf b]"
  by (simp add: split_on_first split_on_none digitsOf_no_hyphen)

lemma showNumber_nat: "0 \<le> i \<Longrightarrow> i < 2 ^ 53 \<Longrightarrow> showNumber i = Some (digitsOf (nat i))"
  by (simp add: showNumber_def safeInteger_def showInt_def)

lemma cursorOf_digits:
  assumes "published_at j = Some p" and "0 \<le> p" and "p < 2 ^ 53"
    and "0 \<le> job_id j" and "job_id j < 2 ^ 53"
  shows "cursorOf j = Some (digitsOf (nat p) @ 45 # digitsOf (nat (job_id j)))"
  using assms by (simp add: cursorOf_def showNumber_nat)

lemma home_digits:
  assumes "0 < p" and "p < 2 ^ 53" and "0 < i" and "i < 2 ^ 53"
  shows "home d (digitsOf (nat p) @ 45 # digitsOf (nat i)) =
           pageOf (stmtPageCursor d p p i pageSize)"
proof -
  have "NumberOf (digitsOf (nat p)) = Some (Num p)"
    using assms NumberOf_digitsOf [of "nat p"] by simp
  moreover have "NumberOf (digitsOf (nat i)) = Some (Num i)"
    using assms NumberOf_digitsOf [of "nat i"] by simp
  ultimately show ?thesis
    using assms(1,3) by (simp add: home_def split_on_digits falsyNumber_def)
qed

lemma home_first: "home d [] = pageOf (stmtPageFirst d pageSize)"
  by (simp add: home_def)

lemma order_desc_filter: "order_desc (filter P js) = filter P (order_desc js)"
  by (simp add: order_desc_def filter_sort [symmetric] rev_filter)

lemma filter_below_nth:
  fixes f :: "'a \<Rightarrow> 'b::linorder"
  assumes "sorted_wrt (\<lambda>a b. f b < f a) xs" and "k < length xs"
  shows "filter (\<lambda>x. f x < f (xs ! k)) xs = drop (Suc k) (xs :: 'a list)"
  using assms
proof (induction xs arbitrary: k)
  case Nil
  then show ?case by simp
next
  case (Cons x xs)
  show ?case
  proof (cases k)
    case 0
    from Cons.prems(1) have "\<forall>y \<in> set xs. f y < f x" by simp
    then have "filter (\<lambda>y. f y < f x) xs = xs" by (simp add: filter_id_conv)
    with 0 show ?thesis by simp
  next
    case (Suc m)
    with Cons.prems have m: "m < length xs" and s: "sorted_wrt (\<lambda>a b. f b < f a) xs" by simp_all
    from Cons.prems(1) m have "f (xs ! m) < f x" by simp
    then have "\<not> f x < f (xs ! m)" by (simp add: not_less less_imp_le)
    with Suc Cons.IH [OF s m] show ?thesis by simp
  qed
qed

lemma beforeCursor_key:
  "published_at j \<noteq> None \<Longrightarrow> beforeCursor p p i j \<longleftrightarrow> job_key j < (Some p, i)"
  by (auto simp: beforeCursor_def job_key_def)

lemma positive_rowsD:
  assumes "positive_rows js" and "j \<in> set js"
  obtains p where "published_at j = Some p" and "0 < p" and "p < 2 ^ 53"
    and "0 < job_id j" and "job_id j < 2 ^ 53"
  using assms by (auto simp: positive_rows_def list_all_iff split: option.splits)

lemma stmtPageCursor_nth:
  assumes ids: "distinct (map job_id (jobs d))"
    and pos: "positive_rows (jobs d)"
    and k: "k < length (jobs d)"
    and p: "published_at (order_desc (jobs d) ! k) = Some p"
  shows "stmtPageCursor d p p (job_id (order_desc (jobs d) ! k)) n =
           take n (drop (Suc k) (order_desc (jobs d)))"
proof -
  let ?S = "order_desc (jobs d)"
  let ?j = "?S ! k"
  have kS: "k < length ?S" using k by (simp add: length_order_desc)
  have key: "job_key ?j = (Some p, job_id ?j)" using p by (simp add: job_key_def)
  have "\<And>x. x \<in> set (jobs d) \<Longrightarrow>
          beforeCursor p p (job_id ?j) x = (job_key x < job_key ?j)"
  proof -
    fix x assume "x \<in> set (jobs d)"
    with pos obtain q where "published_at x = Some q" by (rule positive_rowsD)
    then show "beforeCursor p p (job_id ?j) x = (job_key x < job_key ?j)"
      by (simp add: beforeCursor_key key)
  qed
  then have "filter (beforeCursor p p (job_id ?j)) (jobs d) =
             filter (\<lambda>x. job_key x < job_key ?j) (jobs d)"
    by (intro filter_cong refl)
  then have "order_desc (filter (beforeCursor p p (job_id ?j)) (jobs d)) =
             filter (\<lambda>x. job_key x < job_key ?j) ?S"
    by (simp add: order_desc_filter)
  also have "\<dots> = drop (Suc k) ?S"
    using order_desc_descending [OF ids] kS by (rule filter_below_nth)
  finally show ?thesis by (simp add: stmtPageCursor_def)
qed

lemma home_nth:
  assumes ids: "distinct (map job_id (jobs d))"
    and pos: "positive_rows (jobs d)"
    and k: "k < length (jobs d)"
  shows "\<exists>c. cursorOf (order_desc (jobs d) ! k) = Some c \<and>
             home d c = pageOf (take pageSize (drop (Suc k) (order_desc (jobs d))))"
proof -
  let ?S = "order_desc (jobs d)"
  have "?S ! k \<in> set (jobs d)"
    using k nth_mem [of k ?S] by (simp add: length_order_desc set_order_desc)
  with pos obtain p where p: "published_at (?S ! k) = Some p" and pp: "0 < p" "p < 2 ^ 53"
    and pi: "0 < job_id (?S ! k)" "job_id (?S ! k) < 2 ^ 53" by (rule positive_rowsD)
  let ?c = "digitsOf (nat p) @ 45 # digitsOf (nat (job_id (?S ! k)))"
  have "cursorOf (?S ! k) = Some ?c"
    using p pp pi by (intro cursorOf_digits) simp_all
  moreover have "home d ?c = pageOf (take pageSize (drop (Suc k) ?S))"
    by (simp only: home_digits [OF pp pi] stmtPageCursor_nth [OF ids pos k p])
  ultimately show ?thesis by blast
qed

lemma fullScan_tail:
  assumes ids: "distinct (map job_id (jobs d))"
    and pos: "positive_rows (jobs d)"
  shows "home d c = pageOf (take pageSize (drop m (order_desc (jobs d)))) \<Longrightarrow>
         length (drop m (order_desc (jobs d))) < fuel \<Longrightarrow>
         fullScan fuel d c = Rows (drop m (order_desc (jobs d)))"
proof (induction fuel arbitrary: m c)
  case 0
  then show ?case by simp
next
  case (Suc n)
  let ?S = "order_desc (jobs d)"
  let ?T = "drop m ?S"
  show ?case
  proof (cases "length (take pageSize ?T) = pageSize")
    case False
    then have "length ?T < pageSize" by (simp add: min_def split: if_splits)
    then have "take pageSize ?T = ?T" by simp
    with False Suc.prems(1) show ?thesis by (simp add: pageOf_def)
  next
    case True
    then have len: "pageSize \<le> length ?T" by (simp add: min_def split: if_splits)
    have ps: "0 < pageSize" by (simp add: pageSize_def)
    let ?k = "m + (pageSize - 1)"
    have kS: "?k < length ?S" using len ps by simp
    then have k: "?k < length (jobs d)" by (simp add: length_order_desc)
    have "last (take pageSize ?T) = take pageSize ?T ! (pageSize - 1)"
      using True ps by (simp add: last_conv_nth)
    also have "\<dots> = ?T ! (pageSize - 1)" using ps by simp
    also have "\<dots> = ?S ! ?k" using kS by (simp add: nth_drop)
    finally have lastT: "last (take pageSize ?T) = ?S ! ?k" .
    have next_m: "Suc ?k = m + pageSize" using ps by simp
    have dd: "drop (m + pageSize) ?S = drop pageSize ?T" by (simp add: add.commute)
    from home_nth [OF ids pos k] obtain c' where
      c': "cursorOf (?S ! ?k) = Some c'" and
      h0: "home d c' = pageOf (take pageSize (drop (Suc ?k) ?S))" by blast
    from h0 have h: "home d c' = pageOf (take pageSize (drop (m + pageSize) ?S))"
      by (simp only: next_m)
    have "length (drop (m + pageSize) ?S) < n"
      using Suc.prems(2) len ps by simp
    with h have "fullScan n d c' = Rows (drop (m + pageSize) ?S)"
      by (rule Suc.IH)
    moreover have "home d c = Some (Inr \<lparr>rows = take pageSize ?T, nextCursor = Some c'\<rparr>)"
      using True c' lastT Suc.prems(1) by (simp add: pageOf_def)
    ultimately
    have fs: "fullScan (Suc n) d c = Rows (take pageSize ?T @ drop (m + pageSize) ?S)"
      by simp
    have "take pageSize ?T @ drop (m + pageSize) ?S = ?T"
      by (simp only: dd append_take_drop_id)
    with fs show ?thesis by (simp only:)
  qed
qed

lemma home_cursor_zero:
  assumes "published_at j = Some 0" and "0 \<le> job_id j" and "job_id j < 2 ^ 53"
  shows "\<exists>c. cursorOf j = Some c \<and> home d c = Some (Inl Status400)"
proof -
  let ?c = "digitsOf (nat 0) @ 45 # digitsOf (nat (job_id j))"
  have c: "cursorOf j = Some ?c"
    using assms by (intro cursorOf_digits) simp_all
  have "NumberOf (digitsOf (nat 0)) = Some (Num 0)"
    using NumberOf_digitsOf [of "nat 0"] by simp
  moreover have "NumberOf (digitsOf (nat (job_id j))) = Some (Num (job_id j))"
    using assms NumberOf_digitsOf [of "nat (job_id j)"] by simp
  ultimately have "home d ?c = Some (Inl Status400)"
    by (simp add: home_def split_on_digits falsyNumber_def del: nat_zero_as_int)
  with c show ?thesis by blast
qed

lemma db51_rows:
  "j \<in> set (jobs db51) \<Longrightarrow> published_at j = Some 0 \<and> 0 \<le> job_id j \<and> job_id j < 2 ^ 53"
  by (auto simp: db51_def mkJob_def)

lemma db51_scan: "fullScan (Suc (Suc n)) db51 [] = Failed Status400"
proof -
  let ?P = "stmtPageFirst db51 pageSize"
  have len: "length ?P = pageSize"
    by (simp add: stmtPageFirst_def length_order_desc db51_def pageSize_def)
  then have "?P \<noteq> []" by (auto simp: pageSize_def)
  then have "last ?P \<in> set ?P" by (rule last_in_set)
  then have "last ?P \<in> set (order_desc (jobs db51))"
    unfolding stmtPageFirst_def by (rule in_set_takeD)
  then have "published_at (last ?P) = Some 0 \<and> 0 \<le> job_id (last ?P) \<and>
             job_id (last ?P) < 2 ^ 53"
    using db51_rows [of "last ?P"] by (simp add: set_order_desc)
  then obtain c where c: "cursorOf (last ?P) = Some c"
    and h: "home db51 c = Some (Inl Status400)"
    using home_cursor_zero [of "last ?P" db51] by blast
  from len c have "home db51 [] = Some (Inr \<lparr>rows = ?P, nextCursor = Some c\<rparr>)"
    by (simp add: home_first pageOf_def)
  with h show ?thesis by simp
qed

lemma order_desc_sorted:
  assumes "sorted (map job_key js)"
  shows "order_desc js = rev js"
  using assms by (simp add: order_desc_def sort_key_id_if_sorted)

lemma db51s_sorted: "sorted (map job_key (jobs db51s))"
  by (simp add: db51s_def mkJob_def job_key_def comp_def sorted_map sorted_wrt_iff_nth_less
      less_eq_prod_def less_option_def less_eq_option_def)

lemma db51s_order: "order_desc (jobs db51s) = rev (jobs db51s)"
  using db51s_sorted by (rule order_desc_sorted)

lemma db51s_ids: "distinct (map job_id (jobs db51s))"
  by (simp add: db51s_def mkJob_def distinct_map inj_on_def comp_def)

lemma db51s_positive: "positive_rows (jobs db51s)"
  by (simp add: db51s_def mkJob_def positive_rows_def list_all_iff)

lemma db51s_last: "last (take 50 (rev (jobs db51s))) = mkJob 2 (Some 1700000002)"
  by (simp add: db51s_def last_conv_nth rev_nth min_def)

lemma db51s_cursor: "cursorOf (mkJob 2 (Some 1700000002)) = Some (str ''1700000002-2'')"
  by (simp add: cursorOf_def showNumber_def safeInteger_def showInt_def mkJob_def str_def)
     (simp add: digitsOf.simps)

lemma db51s_first:
  "home db51s [] =
     Some (Inr \<lparr>rows = take 50 (rev (jobs db51s)), nextCursor = Some (str ''1700000002-2'')\<rparr>)"
  by (simp add: home_first pageOf_def stmtPageFirst_def db51s_order pageSize_def db51s_last
      db51s_cursor)
     (simp add: db51s_def)

lemma db51s_cursor_digits:
  "str ''1700000002-2'' = digitsOf (nat 1700000002) @ 45 # digitsOf (nat 2)"
  by (simp add: str_def) (simp add: digitsOf.simps)

lemma db51s_nth: "order_desc (jobs db51s) ! 49 = mkJob 2 (Some 1700000002)"
  by (simp add: db51s_order) (simp add: db51s_def rev_nth)

lemma db51s_second:
  "home db51s (str ''1700000002-2'') =
     Some (Inr \<lparr>rows = [mkJob 1 (Some 1700000001)], nextCursor = None\<rparr>)"
proof -
  have k: "49 < length (jobs db51s)" by (simp add: db51s_def)
  have p: "published_at (order_desc (jobs db51s) ! 49) = Some 1700000002"
    by (simp add: db51s_nth mkJob_def)
  have i: "job_id (order_desc (jobs db51s) ! 49) = 2"
    by (simp add: db51s_nth mkJob_def)
  have "home db51s (str ''1700000002-2'') =
          pageOf (stmtPageCursor db51s 1700000002 1700000002 2 pageSize)"
    unfolding db51s_cursor_digits by (rule home_digits) simp_all
  also have "stmtPageCursor db51s 1700000002 1700000002 2 pageSize =
          take pageSize (drop (Suc 49) (order_desc (jobs db51s)))"
    using stmtPageCursor_nth [OF db51s_ids db51s_positive k p, of pageSize] by (simp only: i)
  also have "\<dots> = [mkJob 1 (Some 1700000001)]"
    by (simp add: db51s_order pageSize_def) (simp add: db51s_def drop_rev upt_rec take_map)
  finally show ?thesis by (simp add: pageOf_def pageSize_def)
qed

text \<open>
  Claim C4, as stated, fails: in a store of fifty-one postings published at the time 0 the
  first page has fifty rows, its next cursor starts with \<open>0\<close>, and the route answers that
  cursor with the status 400, so the scan never reaches the last posting.
\<close>

theorem fullScan_counterexample:
  "length (jobs db51) = 51 \<and> distinct (map job_id (jobs db51)) \<and>
   fullScan 52 db51 [] = Failed Status400"
proof -
  have "fullScan (Suc (Suc 50)) db51 [] = Failed Status400" by (rule db51_scan)
  moreover have "Suc (Suc 50) = 52" by simp
  ultimately have "fullScan 52 db51 [] = Failed Status400" by (simp only:)
  moreover have "length (jobs db51) = 51" by (simp add: db51_def)
  moreover have "distinct (map job_id (jobs db51))"
    by (simp add: db51_def mkJob_def distinct_map inj_on_def comp_def)
  ultimately show ?thesis by blast
qed

text \<open>
  Claim C4, amended. In a store whose ids are unique and whose ids and publication times
  are all positive integers below \<open>2^53\<close> (no publication time is NULL), the full scan ends
  within one request more than there are rows, and it returns every row exactly once, in
  strictly descending \<open>(published_at, id)\<close> order.
\<close>

theorem fullScan_all_rows:
  assumes ids: "distinct (map job_id (jobs d))"
    and pos: "positive_rows (jobs d)"
    and fuel: "length (jobs d) < fuel"
  shows "fullScan fuel d [] = Rows (order_desc (jobs d)) \<and>
         mset (order_desc (jobs d)) = mset (jobs d) \<and>
         sorted_wrt (\<lambda>a b. job_key b < job_key a) (order_desc (jobs d))"
proof -
  have "home d [] = pageOf (take pageSize (drop 0 (order_desc (jobs d))))"
    by (simp add: home_first stmtPageFirst_def)
  moreover have "length (drop 0 (order_desc (jobs d))) < fuel"
    using fuel by (simp add: length_order_desc)
  ultimately have "fullScan fuel d [] = Rows (drop 0 (order_desc (jobs d)))"
    by (rule fullScan_tail [OF ids pos])
  then show ?thesis
    using order_desc_descending [OF ids] by (simp add: order_desc_def)
qed

theorem fullScan_all_rows_witness:
  "distinct (map job_id (jobs db51s)) \<and> positive_rows (jobs db51s) \<and>
   length (jobs db51s) = 51 \<and>
   fullScan 52 db51s [] = Rows (rev (jobs db51s)) \<and>
   home db51s [] =
     Some (Inr \<lparr>rows = take 50 (rev (jobs db51s)), nextCursor = Some (str ''1700000002-2'')\<rparr>) \<and>
   home db51s (str ''1700000002-2'') =
     Some (Inr \<lparr>rows = [mkJob 1 (Some 1700000001)], nextCursor = None\<rparr>)"
proof -
  have fuel: "length (jobs db51s) < 52" by (simp add: db51s_def)
  have len: "length (jobs db51s) = 51" by (simp add: db51s_def)
  from fullScan_all_rows [OF db51s_ids db51s_positive fuel]
  have "fullScan 52 db51s [] = Rows (rev (jobs db51s))" by (simp only: db51s_order)
  with db51s_ids db51s_positive len db51s_first db51s_second show ?thesis by blast
qed

section \<open>Properties of the enrichment engine\<close>










section \<open>Properties of the orchestrator\<close>



lemma broken_run:
  "feedEvents cfg_ex (env_ex broken_feed reply) broken_feed (startRun (g0\<lparr>FEED_RUNNING := True\<rparr>)) =
     \<lparr>run_db = db0, run_console = [LogSaxError (str ''Unexpected end'')], matched = 1, processed = 1, skipped = 0,
      aiEnhanced = 0, fallbackUsed = 0,
      batch = [\<lparr>rawTitle = str ''Chauffeur SPL'', rawCompany = [], rawDescription = [], raw_guid = str ''A1'',
                 raw_source = str ''feed.example'', raw_url = [], raw_published_at = Some 1700000000\<rparr>],
      currentItem = None, currentTag = str ''title'', currentText = str ''Chauffeur SPL'',
      promise = Rejected (str ''Unexpected end'')\<rparr>"
  by (simp add: feedEvents_def broken_feed_def startRun_def g0_def env_ex_def cfg_ex_def
      on_opentag_def on_text_def on_closetag_def setField_def identityOf_def isRecordTag_def
      matchesProfession_def stmtHasGuid_def db0_def reject_def
      str_def lowerLatin1_def lowerLatin1Unit_def trim_def isSpace_def Let_def)

lemma broken_processFeed:
  "processFeed cfg_ex (env_ex broken_feed reply) g0 =
     (Raised (str ''Unexpected end''),
      \<lparr>FEED_RUNNING = False, database = db0,
       console = [LogSaxError (str ''Unexpected end''), LogFeedError (str ''Unexpected end'')]\<rparr>)"
proof -
  have f: "e_fetch (env_ex broken_feed reply) (FEED_URL cfg_ex) = Stream broken_feed"
    by (simp add: env_ex_def)
  have u: "FEED_URL cfg_ex \<noteq> []" by (simp add: cfg_ex_def str_def)
  have n: "\<not> FEED_RUNNING g0" by (simp add: g0_def)
  show ?thesis
    using u n by (simp add: processFeed_def f broken_run Let_def)
qed



lemma fold_preserves:
  assumes "\<And>x s. P (f x s) = P s"
  shows "P (fold f xs s) = P s"
  using assms by (induction xs arbitrary: s) simp_all

lemma cache_stmtInsertJob: "stats_cache (stmtInsertJob d p) = stats_cache d"
  by (simp add: stmtInsertJob_def)

lemma cache_stmtInsertTag: "stats_cache (stmtInsertTag d n s) = stats_cache d"
  by (simp add: stmtInsertTag_def)

lemma cache_stmtInsertJobTag: "stats_cache (stmtInsertJobTag d a b) = stats_cache d"
  by (simp add: stmtInsertJobTag_def)

lemma cache_upsertTagsForJob: "stats_cache (upsertTagsForJob E d jid names) = stats_cache d"
  unfolding upsertTagsForJob_def
  by (rule fold_preserves)
     (simp add: Let_def cache_stmtInsertTag cache_stmtInsertJobTag split: option.splits)

lemma cache_insertBatch: "stats_cache (insertBatch E d ps) = stats_cache d"
  unfolding insertBatch_def
  by (rule fold_preserves)
     (simp add: Let_def cache_stmtInsertJob cache_upsertTagsForJob split: option.splits)

lemma cache_enrichOne: "stats_cache (es_db (enrichOne cfg E j st)) = stats_cache (es_db st)"
  by (simp add: enrichOne_def Let_def cache_insertBatch)

lemma cache_enrichLoop:
  "stats_cache (es_db (fold (enrichOne cfg E) js st)) = stats_cache (es_db st)"
  by (rule fold_preserves) (rule cache_enrichOne)

lemma run_db_resolve: "run_db (resolve r) = run_db r"
  by (simp add: resolve_def)

lemma cache_on_end: "stats_cache (run_db (on_end cfg E r)) = stats_cache (run_db r)"
  by (simp add: on_end_def Let_def run_db_resolve cache_insertBatch cache_enrichLoop)

lemma db_on_closetag: "run_db (on_closetag cfg E n r) = run_db r"
  by (simp add: on_closetag_def Let_def split: option.splits)

lemma handle_db: "ev \<noteq> EndEv \<Longrightarrow> run_db (handle cfg E ev r) = run_db r"
  by (cases ev) (simp_all add: on_opentag_def on_text_def db_on_closetag reject_def Let_def)

lemma handle_cache: "stats_cache (run_db (handle cfg E ev r)) = stats_cache (run_db r)"
  by (cases "ev = EndEv") (simp_all add: cache_on_end handle_db)

lemma feedEvents_cache: "stats_cache (run_db (feedEvents cfg E evs r)) = stats_cache (run_db r)"
  unfolding feedEvents_def by (rule fold_preserves) (rule handle_cache)

lemma feedEvents_db: "EndEv \<notin> set evs \<Longrightarrow> run_db (feedEvents cfg E evs r) = run_db r"
  unfolding feedEvents_def by (induction evs arbitrary: r) (auto simp: handle_db)

lemma promise_on_closetag: "promise (on_closetag cfg E n r) = promise r"
  by (simp add: on_closetag_def Let_def split: option.splits)

lemma handle_unsettled: "\<not> settles ev \<Longrightarrow> promise (handle cfg E ev r) = promise r"
  by (cases ev) (simp_all add: on_opentag_def on_text_def promise_on_closetag Let_def)

lemma feedEvents_unsettled:
  "list_all (\<lambda>ev. \<not> settles ev) evs \<Longrightarrow> promise (feedEvents cfg E evs r) = promise r"
  unfolding feedEvents_def by (induction evs arbitrary: r) (simp_all add: handle_unsettled)

lemma handle_settled: "promise r \<noteq> Pending \<Longrightarrow> promise (handle cfg E ev r) = promise r"
  by (cases ev)
     (simp_all add: on_opentag_def on_text_def promise_on_closetag on_end_def resolve_def
        reject_def Let_def)

lemma feedEvents_settled:
  "promise r \<noteq> Pending \<Longrightarrow> promise (feedEvents cfg E evs r) = promise r"
  unfolding feedEvents_def by (induction evs arbitrary: r) (simp_all add: handle_settled)

lemma console_on_closetag: "run_console (on_closetag cfg E n r) = run_console r"
  by (simp add: on_closetag_def Let_def split: option.splits)

lemma handle_console: "set (run_console r) \<subseteq> set (run_console (handle cfg E ev r))"
  by (cases ev)
     (auto simp: on_opentag_def on_text_def console_on_closetag on_end_def resolve_def
        reject_def Let_def)

lemma feedEvents_console:
  "set (run_console r) \<subseteq> set (run_console (feedEvents cfg E evs r))"
  unfolding feedEvents_def
proof (induction evs arbitrary: r)
  case Nil
  then show ?case by simp
next
  case (Cons ev evs)
  have "set (run_console r) \<subseteq> set (run_console (handle cfg E ev r))" by (rule handle_console)
  also have "\<dots> \<subseteq> set (run_console (fold (handle cfg E) evs (handle cfg E ev r)))" by (rule Cons.IH)
  finally show ?case by simp
qed

lemma feedEvents_append:
  "feedEvents cfg E (xs @ ys) r = feedEvents cfg E ys (feedEvents cfg E xs r)"
  by (simp add: feedEvents_def)

lemma feedEvents_Cons:
  "feedEvents cfg E (x # xs) r = feedEvents cfg E xs (handle cfg E x r)"
  by (simp add: feedEvents_def)

lemma parser_error_run:
  assumes pre: "list_all (\<lambda>ev. \<not> settles ev) pre" and pend: "promise r = Pending"
  shows "promise (feedEvents cfg E (pre @ ParserError e # post) r) = Rejected e \<and>
         LogSaxError e \<in> set (run_console (feedEvents cfg E (pre @ ParserError e # post) r))"
proof -
  let ?r1 = "feedEvents cfg E pre r"
  let ?r2 = "handle cfg E (ParserError e) ?r1"
  have p1: "promise ?r1 = Pending" using pre pend by (simp add: feedEvents_unsettled)
  then have p2: "promise ?r2 = Rejected e" by (simp add: reject_def)
  have c2: "LogSaxError e \<in> set (run_console ?r2)" by (simp add: reject_def)
  have eq: "feedEvents cfg E (pre @ ParserError e # post) r = feedEvents cfg E post ?r2"
    by (simp add: feedEvents_append feedEvents_Cons)
  have "promise (feedEvents cfg E post ?r2) = Rejected e"
    using p2 by (simp add: feedEvents_settled)
  moreover have "LogSaxError e \<in> set (run_console (feedEvents cfg E post ?r2))"
    using c2 feedEvents_console [of ?r2 cfg E post] by blast
  ultimately show ?thesis by (simp only: eq)
qed

text \<open>
  Claim C2, as stated, fails: a feed that breaks off after one relevant record makes
  \<open>processFeed\<close> raise the parse error, and the record parsed before the error (it was counted
  as matched) is not in the store afterwards.
\<close>

theorem parser_error_counterexample:
  "matched (feedEvents cfg_ex (env_ex broken_feed (Content [])) broken_feed
              (startRun (g0\<lparr>FEED_RUNNING := True\<rparr>))) = 1 \<and>
   fst (processFeed cfg_ex (env_ex broken_feed (Content [])) g0) = Raised (str ''Unexpected end'') \<and>
   jobs (database (snd (processFeed cfg_ex (env_ex broken_feed (Content [])) g0))) = []"
  by (simp add: broken_run broken_processFeed) (simp add: db0_def)

text \<open>
  Claim C2, amended. When the parser reports an error before the end of the feed, the error
  is logged and the run is aborted: \<open>processFeed\<close> raises that error to its caller with
  \<open>FEED_RUNNING\<close> cleared, and the count refresh and the pruning do not happen. The records
  parsed before the error are enriched and persisted only by the \<open>end\<close> handler: if the
  parser emits no \<open>end\<close> after the error, the store is left as it was.
\<close>

theorem parser_error_aborts:
  assumes idle: "\<not> FEED_RUNNING g"
    and url: "FEED_URL cfg \<noteq> []"
    and feed: "e_fetch E (FEED_URL cfg) = Stream (pre @ ParserError e # post)"
    and pre: "list_all (\<lambda>ev. \<not> settles ev) pre"
  shows "fst (processFeed cfg E g) = Raised e \<and>
         \<not> FEED_RUNNING (snd (processFeed cfg E g)) \<and>
         LogSaxError e \<in> set (console (snd (processFeed cfg E g))) \<and>
         stats_cache (database (snd (processFeed cfg E g))) = stats_cache (database g) \<and>
         (EndEv \<notin> set post \<longrightarrow> database (snd (processFeed cfg E g)) = database g)"
proof -
  let ?g1 = "g\<lparr>FEED_RUNNING := True\<rparr>"
  let ?r = "feedEvents cfg E (pre @ ParserError e # post) (startRun ?g1)"
  have pend: "promise (startRun ?g1) = Pending" by (simp add: startRun_def)
  from parser_error_run [OF pre pend, of cfg E e post]
  have rej: "promise ?r = Rejected e" and lg: "LogSaxError e \<in> set (run_console ?r)" by simp_all
  have pf: "processFeed cfg E g =
      (Raised e, ?g1\<lparr>database := run_db ?r, console := run_console ?r @ [LogFeedError e],
                     FEED_RUNNING := False\<rparr>)"
    using idle url by (simp add: processFeed_def feed rej Let_def)
  have cache: "stats_cache (run_db ?r) = stats_cache (database g)"
    by (simp add: feedEvents_cache startRun_def)
  have db: "EndEv \<notin> set post \<longrightarrow> run_db ?r = database g"
  proof
    assume "EndEv \<notin> set post"
    moreover have "EndEv \<notin> set pre" using pre by (auto simp: list_all_iff)
    ultimately have "EndEv \<notin> set (pre @ ParserError e # post)" by simp
    then have "run_db ?r = run_db (startRun ?g1)" by (rule feedEvents_db)
    then show "run_db ?r = database g" by (simp add: startRun_def)
  qed
  from lg cache db show ?thesis by (simp add: pf)
qed

theorem parser_error_aborts_witness:
  "fst (processFeed cfg_ex (env_ex broken_feed (Raises [])) g0) = Raised (str ''Unexpected end'') \<and>
   LogSaxError (str ''Unexpected end'') \<in>
     set (console (snd (processFeed cfg_ex (env_ex broken_feed (Raises [])) g0))) \<and>
   database (snd (processFeed cfg_ex (env_ex broken_feed (Raises [])) g0)) = db0"
proof -
  let ?pre = "[OpenTag (str ''item''),
      OpenTag (str ''guid''), TextEv (str ''A1''), CloseTag (str ''guid''),
      OpenTag (str ''title''), TextEv (str ''Chauffeur SPL''), CloseTag (str ''title''),
      CloseTag (str ''item'')]"
  have idle: "\<not> FEED_RUNNING g0" by (simp add: g0_def)
  have url: "FEED_URL cfg_ex \<noteq> []" by (simp add: cfg_ex_def str_def)
  have feed: "e_fetch (env_ex broken_feed (Raises [])) (FEED_URL cfg_ex) =
      Stream (?pre @ ParserError (str ''Unexpected end'') # [])"
    by (simp add: env_ex_def broken_feed_def)
  have pre: "list_all (\<lambda>ev. \<not> settles ev) ?pre" by simp
  have post: "EndEv \<notin> set []" by simp
  from parser_error_aborts [OF idle url feed pre] post show ?thesis
    by (simp add: g0_def)
qed

section \<open>Properties of the record stream parser\<close>

lemma child_step:
  assumes "currentItem r = Some it0" and "\<not> isRecordTag (e_toLowerCase E n)"
  shows "feedEvents cfg E [OpenTag n, TextEv t, CloseTag n] r =
           r\<lparr>currentTag := e_toLowerCase E n, currentText := t,
             currentItem := Some (setField (e_toLowerCase E n) t it0)\<rparr>"
  using assms
  by (simp add: feedEvents_def on_opentag_def on_text_def on_closetag_def Let_def)

lemma setField_link:
  "it_link (setField tn t it) =
     (if tn = str ''url'' \<or> tn = str ''link'' then trim t else it_link it)"
proof (cases "tn = str ''url'' \<or> tn = str ''link''")
  case True
  then show ?thesis by (auto simp: setField_def str_def)
next
  case False
  then show ?thesis by (simp add: setField_def)
qed

lemma setField_guid:
  "it_guid (setField tn t it) =
     (if (tn = str ''guid'' \<or> tn = str ''referencenumber'') \<and> it_guid it = [] then trim t
      else it_guid it)"
proof (cases "tn = str ''guid'' \<or> tn = str ''referencenumber''")
  case True
  then show ?thesis by (auto simp: setField_def str_def)
next
  case False
  then show ?thesis by (simp add: setField_def)
qed

lemma lastLink_Nil: "lastLink E [] = []"
  by (simp add: lastLink_def)

lemma lastLink_Cons:
  "lastLink E ((n, t) # cs) =
     (if filter (\<lambda>(n, t). isLinkName E n) cs \<noteq> [] then lastLink E cs
      else if isLinkName E n then trim t else [])"
proof (cases "rev (filter (\<lambda>(n, t). isLinkName E n) cs)")
  case Nil
  then show ?thesis by (simp add: lastLink_def)
next
  case (Cons a as)
  then have "filter (\<lambda>(n, t). isLinkName E n) cs \<noteq> []" by auto
  with Cons show ?thesis by (simp add: lastLink_def)
qed

lemma firstGuid_Cons:
  "firstGuid E ((n, t) # cs) = (if isGuidName E n \<and> trim t \<noteq> [] then trim t else firstGuid E cs)"
  by (simp add: firstGuid_def)

lemma children_run:
  assumes "plainChildren E cs" and "currentItem r = Some it0"
  shows "\<exists>it. currentItem (feedEvents cfg E (childEvents cs) r) = Some it \<and>
           it_link it = (if filter (\<lambda>(n, t). isLinkName E n) cs = [] then it_link it0 else lastLink E cs) \<and>
           it_guid it = (if it_guid it0 \<noteq> [] then it_guid it0 else firstGuid E cs)"
  using assms
proof (induction cs arbitrary: r it0)
  case Nil
  then show ?case by (simp add: childEvents_def feedEvents_def firstGuid_def)
next
  case (Cons c cs)
  obtain n t where c: "c = (n, t)" by (cases c)
  from Cons.prems(1) c have nr: "\<not> isRecordTag (e_toLowerCase E n)" and pc: "plainChildren E cs"
    by (simp_all add: plainChildren_def)
  let ?it1 = "setField (e_toLowerCase E n) t it0"
  let ?r1 = "r\<lparr>currentTag := e_toLowerCase E n, currentText := t, currentItem := Some ?it1\<rparr>"
  have ev: "childEvents (c # cs) = [OpenTag n, TextEv t, CloseTag n] @ childEvents cs"
    by (simp add: childEvents_def c)
  have run: "feedEvents cfg E (childEvents (c # cs)) r = feedEvents cfg E (childEvents cs) ?r1"
    by (simp only: ev feedEvents_append child_step [OF Cons.prems(2) nr])
  have cur: "currentItem ?r1 = Some ?it1" by simp
  from Cons.IH [OF pc cur] obtain it where
    it: "currentItem (feedEvents cfg E (childEvents cs) ?r1) = Some it"
    and lk: "it_link it = (if filter (\<lambda>(n, t). isLinkName E n) cs = [] then it_link ?it1 else lastLink E cs)"
    and gd: "it_guid it = (if it_guid ?it1 \<noteq> [] then it_guid ?it1 else firstGuid E cs)"
    by blast
  have l1: "it_link ?it1 = (if isLinkName E n then trim t else it_link it0)"
    by (simp add: setField_link isLinkName_def)
  have g1: "it_guid ?it1 = (if isGuidName E n \<and> it_guid it0 = [] then trim t else it_guid it0)"
    by (simp add: setField_guid isGuidName_def)
  have lk': "it_link it =
      (if filter (\<lambda>(n, t). isLinkName E n) (c # cs) = [] then it_link it0 else lastLink E (c # cs))"
    using lk l1 by (simp add: c lastLink_Cons)
  have gd': "it_guid it = (if it_guid it0 \<noteq> [] then it_guid it0 else firstGuid E (c # cs))"
    using gd g1 by (simp add: c firstGuid_Cons)
  from it lk' gd' show ?case by (simp only: run) blast
qed

lemma two_links_run:
  "map raw_url (batch (feedEvents cfg_ex (env_ex [] (Content [])) two_links_feed (startRun g0))) =
     [str ''https://b.example/2'']"
  by (simp add: two_links_feed_def two_links_def childEvents_def feedEvents_def startRun_def g0_def env_ex_def cfg_ex_def
      on_opentag_def on_text_def on_closetag_def setField_def identityOf_def isRecordTag_def
      matchesProfession_def stmtHasGuid_def db0_def
      str_def lowerLatin1_def lowerLatin1Unit_def trim_def isSpace_def Let_def)

text \<open>
  Claim C7, as stated, fails for the link: in a record with a \<open>link\<close> element followed by a
  \<open>url\<close> element, the record handed on for enrichment carries the text of the second.
\<close>

theorem record_link_counterexample:
  "firstLink (env_ex [] (Content [])) ((str ''title'', str ''Chauffeur SPL'') # two_links) =
     str ''https://a.example/1'' \<and>
   map raw_url (batch (feedEvents cfg_ex (env_ex [] (Content [])) two_links_feed (startRun g0))) =
     [str ''https://b.example/2'']"
proof -
  have "firstLink (env_ex [] (Content [])) ((str ''title'', str ''Chauffeur SPL'') # two_links) =
          str ''https://a.example/1''"
    by (simp add: firstLink_def two_links_def isLinkName_def str_def env_ex_def lowerLatin1_def
        lowerLatin1Unit_def trim_def isSpace_def)
  with two_links_run show ?thesis by simp
qed

text \<open>
  Claim C7, amended. In a record element (\<open>job\<close> or \<open>item\<close>) whose children are simple
  elements, the link of the record is the trimmed text of the last \<open>url\<close> or \<open>link\<close> child
  (each one overwrites the one before, an empty one too), and its guid is the trimmed text
  of the first \<open>guid\<close> or \<open>referencenumber\<close> child whose trimmed text is not empty.
\<close>

theorem record_link_and_identity:
  assumes "isRecordTag (e_toLowerCase E tg)" and "plainChildren E cs"
  shows "map_option it_link (currentItem (feedEvents cfg E (OpenTag tg # childEvents cs) r)) =
           Some (lastLink E cs) \<and>
         map_option it_guid (currentItem (feedEvents cfg E (OpenTag tg # childEvents cs) r)) =
           Some (firstGuid E cs)"
proof -
  let ?it0 = "\<lparr>it_title = [], it_description = [], it_company = [], it_link = [],
               it_guid = [], it_pubDate = e_nowISO E\<rparr>"
  let ?r0 = "on_opentag E tg r"
  have cur: "currentItem ?r0 = Some ?it0" using assms(1) by (simp add: on_opentag_def Let_def)
  have run: "feedEvents cfg E (OpenTag tg # childEvents cs) r = feedEvents cfg E (childEvents cs) ?r0"
    by (simp add: feedEvents_def)
  from children_run [OF assms(2) cur, of cfg] obtain it where
    "currentItem (feedEvents cfg E (childEvents cs) ?r0) = Some it"
    and "it_link it = (if filter (\<lambda>(n, t). isLinkName E n) cs = [] then [] else lastLink E cs)"
    and "it_guid it = firstGuid E cs"
    by auto
  moreover have "filter (\<lambda>(n, t). isLinkName E n) cs = [] \<Longrightarrow> lastLink E cs = []"
    by (simp add: lastLink_def)
  ultimately show ?thesis by (auto simp: run)
qed

theorem record_link_and_identity_witness:
  "map_option it_link
     (currentItem (feedEvents cfg_ex (env_ex [] (Content []))
        (OpenTag (str ''item'') # childEvents children_ex) (startRun g0))) =
     Some (str ''https://b.example/2'') \<and>
   map_option it_guid
     (currentItem (feedEvents cfg_ex (env_ex [] (Content []))
        (OpenTag (str ''item'') # childEvents children_ex) (startRun g0))) =
     Some (str ''R-7'')"
proof -
  have t: "isRecordTag (e_toLowerCase (env_ex [] (Content [])) (str ''item''))"
    by (simp add: isRecordTag_def env_ex_def lowerLatin1_def lowerLatin1Unit_def str_def)
  have p: "plainChildren (env_ex [] (Content [])) children_ex"
    by (simp add: plainChildren_def children_ex_def isRecordTag_def env_ex_def lowerLatin1_def
        lowerLatin1Unit_def str_def)
  have l: "lastLink (env_ex [] (Content [])) children_ex = str ''https://b.example/2''"
    by (simp add: lastLink_def children_ex_def isLinkName_def str_def env_ex_def lowerLatin1_def
        lowerLatin1Unit_def trim_def isSpace_def)
  have g: "firstGuid (env_ex [] (Content [])) children_ex = str ''R-7''"
    by (simp add: firstGuid_def children_ex_def isGuidName_def str_def env_ex_def lowerLatin1_def
        lowerLatin1Unit_def trim_def isSpace_def)
  from record_link_and_identity [OF t p, of cfg_ex "startRun g0"]
  show ?thesis by (simp only: l g)
qed










end
